theory Spec2Isabelle
  imports Main "HOL-Library.Multiset"
begin

section \<open>JavaScript strings and numbers\<close>

text \<open>
  A JavaScript string is a list of characters, one \<open>char\<close> per code unit. The Numbers
  that the renderer reads (entity keys, offsets, lengths, bit rates) are integers or an
  infinity. Such a Number is kept as an \<open>int\<close>: a finite one as its value, which lies
  below \<open>2^1024\<close> in absolute value, and the two infinities as \<open>2^1024\<close> and \<open>- 2^1024\<close>,
  above and below every finite one, so that the order of the Numbers is the order of the
  integers. Where the code computes a Number from a digit string, the value is rounded to
  the nearest double, as the engines do it.
\<close>

function bitLength :: "int \<Rightarrow> nat" where
  \<comment> \<open>The number of binary digits of a positive integer.\<close>
  "bitLength n = (if n \<le> 0 then 0 else Suc (bitLength (n div 2)))"
  by pat_completeness auto
termination
  by (relation "measure nat") auto

definition roundNumber :: "int \<Rightarrow> int" where
  \<comment> \<open>The Number value of a natural number: the nearest double, the even significand of
      53 bits where two are equally near, and the infinity \<open>2^1024\<close> beyond the doubles.\<close>
  "roundNumber n =
     (if n < 2 ^ 53 then n
      else
        let e = bitLength n - 53;
            q = n div 2 ^ e;
            r = n mod 2 ^ e;
            q' = (if 2 ^ e < 2 * r \<or> (2 * r = 2 ^ e \<and> odd q) then q + 1 else q)
        in min (q' * 2 ^ e) (2 ^ 1024))"

definition isFiniteNumber :: "int \<Rightarrow> bool" where
  \<comment> \<open>\<open>Number.isFinite(n)\<close>\<close>
  "isFiniteNumber n = (bitLength \<bar>n\<bar> \<le> 1024)"

definition numberOfIndex :: "nat \<Rightarrow> int" where
  \<comment> \<open>\<open>Number(idx)\<close> for the property name of an index\<close>
  "numberOfIndex idx = roundNumber (int idx)"

definition isWhiteSpace :: "char \<Rightarrow> bool" where
  \<comment> \<open>White space and line terminators of ECMAScript (what \<open>trim\<close> and \<open>\s\<close> match),
      among the code units below 256.\<close>
  "isWhiteSpace c =
     (c = CHR 0x09 \<or> c = CHR 0x0A \<or> c = CHR 0x0B \<or> c = CHR 0x0C \<or> c = CHR 0x0D \<or>
      c = CHR 0x20 \<or> c = CHR 0xA0)"

definition trimStart :: "string \<Rightarrow> string" where
  "trimStart s = dropWhile isWhiteSpace s"

definition trimEnd :: "string \<Rightarrow> string" where
  "trimEnd s = rev (dropWhile isWhiteSpace (rev s))"

definition trim :: "string \<Rightarrow> string" where
  "trim s = trimEnd (trimStart s)"

definition relIndex :: "nat \<Rightarrow> int \<Rightarrow> nat" where
  \<comment> \<open>How \<open>String.prototype.slice\<close> reads an index: a negative one counts from the end,
      and the result is clamped to \<open>0 .. len\<close>.\<close>
  "relIndex len i = (if i < 0 then nat (max (int len + i) 0) else min (nat i) len)"

definition slice :: "string \<Rightarrow> int \<Rightarrow> int \<Rightarrow> string" where
  "slice s a b =
     (let from = relIndex (length s) a; to = relIndex (length s) b
      in take (to - from) (drop from s))"

definition sliceFrom :: "string \<Rightarrow> int \<Rightarrow> string" where
  \<comment> \<open>\<open>s.slice(a)\<close>, with one argument.\<close>
  "sliceFrom s a = drop (relIndex (length s) a) s"

definition isDigit :: "char \<Rightarrow> bool" where
  "isDigit c = (48 \<le> (of_char c :: nat) \<and> (of_char c :: nat) \<le> 57)"

definition digitsValue :: "string \<Rightarrow> int" where
  "digitsValue ds = foldl (\<lambda>n c. 10 * n + int ((of_char c :: nat) - 48)) 0 ds"

definition parseInt10 :: "string \<Rightarrow> int option" where
  \<comment> \<open>\<open>parseInt(s, 10)\<close>: leading white space, an optional sign, the longest prefix of
      decimal digits, and the Number value of what they denote; \<open>None\<close> is NaN.\<close>
  "parseInt10 s =
     (let t = trimStart s;
          neg = (case t of [] \<Rightarrow> False | c # _ \<Rightarrow> c = CHR ''-'');
          u = (case t of [] \<Rightarrow> [] | c # r \<Rightarrow> if c = CHR ''-'' \<or> c = CHR ''+'' then r else t);
          ds = takeWhile isDigit u
      in if ds = [] then None
         else Some (if neg then - roundNumber (digitsValue ds)
                    else roundNumber (digitsValue ds)))"

fun findIndex :: "('a \<Rightarrow> bool) \<Rightarrow> 'a list \<Rightarrow> nat option" where
  "findIndex P [] = None"
| "findIndex P (x # xs) =
     (if P x then Some 0 else map_option Suc (findIndex P xs))"

section \<open>The entity map\<close>

text \<open>
  Modelled from the spec: the type declarations of \<open>types.ts\<close> (\<open>ArticleEntity\<close>,
  \<open>ArticleContentState\<close>, \<open>ArticleBlock\<close>, \<open>ArticleEntityMapEntry\<close>,
  \<open>ArticleMediaInfo\<close>) are not among the sources. The records of this theory hold the
  fields that the code reads, at the types of the design's data model; a field that may be
  missing, or that the code tests with \<open>typeof\<close>, is an option.
\<close>

record MediaItem =
  item_mediaId :: "string option"
  item_media_id :: "string option"

record EntityData =
  caption :: "string option"
  mediaItems :: "MediaItem list option"
  data_url :: "string option"
  tweetId :: "string option"

record EntityValue =
  vtype :: "string option"
  vdata :: "EntityData option"

record ArticleEntityMapEntry =
  ekey :: "string option"
  evalue :: "EntityValue option"

text \<open>
  Modelled from the spec: \<open>ArticleContentState["entityMap"]\<close>, a mapping from the
  string-encoded index to the entry; here the entries as \<open>Object.entries\<close> enumerates them.
  The property names are string-encoded indices, kept as the index itself, so that
  \<open>Number(idx)\<close> is the index and \<open>entityMap[String(k)]\<close> is the entry stored under index
  \<open>k\<close>.
\<close>

type_synonym EntityMap = "(nat \<times> ArticleEntityMapEntry) list"

record EntityLookup =
  byIndex :: "int \<rightharpoonup> ArticleEntityMapEntry"
  byLogicalKey :: "int \<rightharpoonup> ArticleEntityMapEntry"

definition logicalKeyOf :: "ArticleEntityMapEntry \<Rightarrow> int option" where
  \<comment> \<open>\<open>parseInt(entry?.key ?? "", 10)\<close>\<close>
  "logicalKeyOf entry = parseInt10 (case ekey entry of None \<Rightarrow> [] | Some k \<Rightarrow> k)"

definition lookupStep :: "EntityLookup \<Rightarrow> nat \<times> ArticleEntityMapEntry \<Rightarrow> EntityLookup" where
  \<comment> \<open>One round of the loop of \<open>buildEntityLookup\<close>.\<close>
  "lookupStep lookup ie =
     (let idx = fst ie; entry = snd ie;
          idxNum = numberOfIndex idx;
          lookup1 = (if isFiniteNumber idxNum
                     then lookup\<lparr>byIndex := (byIndex lookup)(idxNum \<mapsto> entry)\<rparr>
                     else lookup)
      in case logicalKeyOf entry of
           None \<Rightarrow> lookup1
         | Some logicalKey \<Rightarrow>
             if isFiniteNumber logicalKey \<and> byLogicalKey lookup1 logicalKey = None
             then lookup1\<lparr>byLogicalKey := (byLogicalKey lookup1)(logicalKey \<mapsto> entry)\<rparr>
             else lookup1)"

definition buildEntityLookup :: "EntityMap option \<Rightarrow> EntityLookup" where
  "buildEntityLookup entityMap =
     (case entityMap of
        None \<Rightarrow> \<lparr>byIndex = Map.empty, byLogicalKey = Map.empty\<rparr>
      | Some em \<Rightarrow> foldl lookupStep \<lparr>byIndex = Map.empty, byLogicalKey = Map.empty\<rparr> em)"

definition rawEntry :: "EntityMap \<Rightarrow> int \<Rightarrow> ArticleEntityMapEntry option" where
  \<comment> \<open>\<open>entityMap[String(entityKey)]\<close>: the text of a negative Number, and of one from
      \<open>1e21\<close>, which is written with an exponent, is not the name of an index.\<close>
  "rawEntry em k = (if k < 0 \<or> 10 ^ 21 \<le> k then None else map_of em (nat k))"

definition resolveEntityEntry ::
  "int option \<Rightarrow> EntityMap option \<Rightarrow> EntityLookup \<Rightarrow> ArticleEntityMapEntry option" where
  "resolveEntityEntry entityKey entityMap lookup =
     (case entityKey of
        None \<Rightarrow> None
      | Some k \<Rightarrow>
          (case byLogicalKey lookup k of
             Some e \<Rightarrow> Some e
           | None \<Rightarrow>
               (case byIndex lookup k of
                  Some e \<Rightarrow> Some e
                | None \<Rightarrow>
                    (case entityMap of None \<Rightarrow> None | Some em \<Rightarrow> rawEntry em k))))"

section \<open>The media-link merge heuristic\<close>

record MediaEntry =
  m_idx :: int
  m_key :: int

record LinkEntry =
  l_key :: int
  l_url :: string

definition isMediaType :: "EntityValue \<Rightarrow> bool" where
  \<comment> \<open>\<open>value.type === "MEDIA" || value.type === "IMAGE"\<close>\<close>
  "isMediaType v = (vtype v = Some ''MEDIA'' \<or> vtype v = Some ''IMAGE'')"

definition valueUrl :: "EntityValue \<Rightarrow> string option" where
  \<comment> \<open>\<open>value.data?.url\<close> when it is a string\<close>
  "valueUrl v = (case vdata v of None \<Rightarrow> None | Some d \<Rightarrow> data_url d)"

definition collectStep ::
  "MediaEntry list \<times> LinkEntry list \<Rightarrow> nat \<times> ArticleEntityMapEntry \<Rightarrow>
   MediaEntry list \<times> LinkEntry list" where
  \<comment> \<open>One round of the first loop of \<open>buildMediaLinkMap\<close>.\<close>
  "collectStep acc ie =
     (case evalue (snd ie) of
        None \<Rightarrow> acc
      | Some v \<Rightarrow>
          (case logicalKeyOf (snd ie) of
             None \<Rightarrow> acc
           | Some k \<Rightarrow>
               if isMediaType v
               then (fst acc @ [\<lparr>m_idx = numberOfIndex (fst ie), m_key = k\<rparr>], snd acc)
               else if vtype v = Some ''LINK''
               then (case valueUrl v of
                       None \<Rightarrow> acc
                     | Some u \<Rightarrow> (fst acc, snd acc @ [\<lparr>l_key = k, l_url = u\<rparr>]))
               else acc))"

definition collectEntries :: "EntityMap \<Rightarrow> MediaEntry list \<times> LinkEntry list" where
  "collectEntries em = foldl collectStep ([], []) em"

fun assignLinks ::
  "MediaEntry list \<Rightarrow> LinkEntry list \<Rightarrow> (int \<rightharpoonup> string) \<Rightarrow> (int \<rightharpoonup> string)" where
  "assignLinks [] pool m = m"
| "assignLinks (media # rest) pool m =
     (if pool = [] then m
      else
        let linkIdx = (case findIndex (\<lambda>l. l_key l > m_key media) pool of
                         None \<Rightarrow> 0 | Some i \<Rightarrow> i);
            link = pool ! linkIdx;
            pool' = take linkIdx pool @ drop (Suc linkIdx) pool
        in assignLinks rest pool'
             (m(m_idx media \<mapsto> l_url link, m_key media \<mapsto> l_url link)))"

definition buildMediaLinkMap :: "EntityMap option \<Rightarrow> (int \<rightharpoonup> string)" where
  "buildMediaLinkMap entityMap =
     (case entityMap of
        None \<Rightarrow> Map.empty
      | Some em \<Rightarrow>
          (let mediaEntries = fst (collectEntries em);
               linkEntries = snd (collectEntries em)
           in if mediaEntries = [] \<or> linkEntries = [] then Map.empty
              else assignLinks (sort_key m_key mediaEntries) (sort_key l_key linkEntries)
                     Map.empty))"

section \<open>The inline range renderer\<close>

record EntityRange =
  rkey :: "int option"
  roffset :: "int option"
  rlength :: "int option"

definition validRange :: "EntityRange \<Rightarrow> bool" where
  "validRange r =
     (rkey r \<noteq> None \<and> roffset r \<noteq> None \<and>
      (case rlength r of None \<Rightarrow> False | Some n \<Rightarrow> n > 0))"

definition offsetOr0 :: "EntityRange \<Rightarrow> int" where
  \<comment> \<open>\<open>r.offset ?? 0\<close>\<close>
  "offsetOr0 r = (case roffset r of None \<Rightarrow> 0 | Some k \<Rightarrow> k)"

definition rangeUrl ::
  "EntityMap option \<Rightarrow> EntityLookup \<Rightarrow> (int \<rightharpoonup> string) \<Rightarrow> int \<Rightarrow> string option" where
  \<comment> \<open>The \<open>url\<close> of one round of the loop of \<open>renderInlineLinks\<close>; \<open>None\<close> where the
      round continues without one.\<close>
  "rangeUrl entityMap entityLookup mediaLinkMap k =
     (case resolveEntityEntry (Some k) entityMap entityLookup of
        None \<Rightarrow> None
      | Some entry \<Rightarrow>
          (case evalue entry of
             None \<Rightarrow> None
           | Some v \<Rightarrow>
               if vtype v = Some ''LINK'' \<and> valueUrl v \<noteq> None then valueUrl v
               else if isMediaType v then mediaLinkMap k
               else None))"

definition applyRange ::
  "EntityMap option \<Rightarrow> EntityLookup \<Rightarrow> (int \<rightharpoonup> string) \<Rightarrow> string \<Rightarrow> EntityRange \<Rightarrow> string" where
  \<comment> \<open>One round of the loop of \<open>renderInlineLinks\<close>.\<close>
  "applyRange entityMap entityLookup mediaLinkMap result r =
     (case (rkey r, roffset r, rlength r) of
        (Some k, Some off, Some len) \<Rightarrow>
          (case rangeUrl entityMap entityLookup mediaLinkMap k of
             None \<Rightarrow> result
           | Some u \<Rightarrow>
               if u = [] then result
               else slice result 0 off @ ''['' @ slice result off (off + len) @ '']('' @ u @ '')''
                      @ sliceFrom result (off + len))
      | _ \<Rightarrow> result)"

definition renderInlineLinks ::
  "string \<Rightarrow> EntityRange list \<Rightarrow> EntityMap option \<Rightarrow> EntityLookup \<Rightarrow> (int \<rightharpoonup> string) \<Rightarrow> string" where
  "renderInlineLinks text entityRanges entityMap entityLookup mediaLinkMap =
     (if entityMap = None \<or> entityRanges = [] then text
      else
        let valid = filter validRange entityRanges
        in if valid = [] then text
           else foldl (applyRange entityMap entityLookup mediaLinkMap) text
                  (sort_key (\<lambda>r. - offsetOr0 r) valid))"

section \<open>Text helpers of the renderer\<close>

fun joinWith :: "string \<Rightarrow> string list \<Rightarrow> string" where
  \<comment> \<open>\<open>Array.prototype.join\<close>\<close>
  "joinWith sep [] = []"
| "joinWith sep [x] = x"
| "joinWith sep (x # y # ys) = x @ sep @ joinWith sep (y # ys)"

function splitNewlines :: "string \<Rightarrow> string \<Rightarrow> string list" where
  \<comment> \<open>\<open>s.split(/\r?\n+/)\<close>, with the piece read so far as first argument: a separator is
      an optional carriage return followed by the longest run of line feeds.\<close>
  "splitNewlines cur [] = [cur]"
| "splitNewlines cur (c # cs) =
     (if c = CHR 0x0A
      then cur # splitNewlines [] (dropWhile (\<lambda>x. x = CHR 0x0A) cs)
      else if c = CHR 0x0D \<and> (case cs of [] \<Rightarrow> False | d # _ \<Rightarrow> d = CHR 0x0A)
      then cur # splitNewlines [] (dropWhile (\<lambda>x. x = CHR 0x0A) cs)
      else splitNewlines (cur @ [c]) cs)"
  by pat_completeness auto
termination
  by (relation "measure (\<lambda>(cur, s). length s)")
     (auto simp: le_imp_less_Suc length_dropWhile_le)

fun splitOn :: "char \<Rightarrow> string \<Rightarrow> string \<Rightarrow> string list" where
  \<comment> \<open>\<open>s.split("\n")\<close> for a one-character separator, with the piece read so far.\<close>
  "splitOn sep cur [] = [cur]"
| "splitOn sep cur (c # cs) =
     (if c = sep then cur # splitOn sep [] cs else splitOn sep (cur @ [c]) cs)"

function collapseWhiteSpace :: "string \<Rightarrow> string" where
  \<comment> \<open>\<open>s.replace(/\s+/g, " ")\<close>\<close>
  "collapseWhiteSpace [] = []"
| "collapseWhiteSpace (c # cs) =
     (if isWhiteSpace c then CHR '' '' # collapseWhiteSpace (dropWhile isWhiteSpace cs)
      else c # collapseWhiteSpace cs)"
  by pat_completeness auto
termination
  by (relation "measure length") (auto simp: le_imp_less_Suc length_dropWhile_le)

definition truthy :: "string option \<Rightarrow> bool" where
  \<comment> \<open>An optional string in a condition: undefined and the empty string are falsy.\<close>
  "truthy s = (case s of None \<Rightarrow> False | Some t \<Rightarrow> t \<noteq> [])"

definition escapeMarkdownAlt :: "string \<Rightarrow> string" where
  "escapeMarkdownAlt text =
     concat (map (\<lambda>c. if c = CHR ''['' \<or> c = CHR '']'' then [CHR 0x5C, c] else [c]) text)"

definition normalizeCaption :: "string option \<Rightarrow> string" where
  "normalizeCaption caption_opt =
     (case caption_opt of
        None \<Rightarrow> []
      | Some c \<Rightarrow> (let trimmed = trim c in if trimmed = [] then [] else collapseWhiteSpace trimmed))"

definition normalizeTweetText :: "string \<Rightarrow> string" where
  \<comment> \<open>The local \<open>normalized\<close> of \<open>summarizeTweetText\<close>, from the trimmed text.\<close>
  "normalizeTweetText trimmed =
     joinWith '' '' (filter (\<lambda>line. line \<noteq> []) (map trim (splitNewlines [] trimmed)))"

definition summarizeTweetText :: "string option \<Rightarrow> string" where
  "summarizeTweetText text =
     (case text of
        None \<Rightarrow> []
      | Some t \<Rightarrow>
          (let trimmed = trim t
           in if trimmed = [] then []
              else let normalized = normalizeTweetText trimmed
                   in if length normalized \<le> 280 then normalized
                      else slice normalized 0 277 @ ''...''))"

definition buildTweetUrl :: "string option \<Rightarrow> string option \<Rightarrow> string option" where
  "buildTweetUrl tweet_id username =
     (case tweet_id of
        None \<Rightarrow> None
      | Some i \<Rightarrow>
          if i = [] then None
          else (case username of
                  None \<Rightarrow> Some (''https://x.com/i/web/status/'' @ i)
                | Some u \<Rightarrow>
                    if u = [] then Some (''https://x.com/i/web/status/'' @ i)
                    else Some (''https://x.com/'' @ u @ ''/status/'' @ i)))"

fun showNat :: "nat \<Rightarrow> string" where
  \<comment> \<open>The decimal digits of a number, as a template literal prints it.\<close>
  "showNat n =
     (if n < 10 then [char_of (48 + n)] else showNat (n div 10) @ [char_of (48 + n mod 10)])"

definition showInt :: "int \<Rightarrow> string" where
  "showInt i = (if i < 0 then CHR ''-'' # showNat (nat (- i)) else showNat (nat i))"

fun includesStr :: "string \<Rightarrow> string \<Rightarrow> bool" where
  \<comment> \<open>\<open>s.includes(p)\<close>\<close>
  "includesStr [] p = (p = [])"
| "includesStr (c # cs) p = (take (length p) (c # cs) = p \<or> includesStr cs p)"

fun dedupe :: "'a list \<Rightarrow> 'a list" where
  \<comment> \<open>\<open>[...new Set(xs)]\<close>: the first occurrence of each element, in order.\<close>
  "dedupe [] = []"
| "dedupe (x # xs) = x # dedupe (filter (\<lambda>y. y \<noteq> x) xs)"

section \<open>Media records and their URLs\<close>

record PreviewImage =
  preview_original_img_url :: "string option"

record MediaVariant =
  variant_url :: "string option"
  bit_rate :: "int option"
  content_type :: "string option"

record ArticleMediaInfo =
  original_img_url :: "string option"
  preview_image :: "PreviewImage option"
  variants :: "MediaVariant list option"

record MediaEntity =
  media_id :: "string option"
  media_info :: "ArticleMediaInfo option"

definition isVideoVariant :: "MediaVariant \<Rightarrow> bool" where
  \<comment> \<open>\<open>variant?.content_type?.includes("video")\<close>\<close>
  "isVideoVariant v = (case content_type v of None \<Rightarrow> False | Some t \<Rightarrow> includesStr t ''video'')"

definition bitRateOr0 :: "MediaVariant \<Rightarrow> int" where
  "bitRateOr0 v = (case bit_rate v of None \<Rightarrow> 0 | Some b \<Rightarrow> b)"

definition resolveMediaUrl :: "ArticleMediaInfo option \<Rightarrow> string option" where
  "resolveMediaUrl info_opt =
     (case info_opt of
        None \<Rightarrow> None
      | Some info \<Rightarrow>
          if truthy (original_img_url info) then original_img_url info
          else if truthy (case preview_image info of
                            None \<Rightarrow> None | Some p \<Rightarrow> preview_original_img_url p)
          then (case preview_image info of None \<Rightarrow> None | Some p \<Rightarrow> preview_original_img_url p)
          else
            let vs = (case variants info of None \<Rightarrow> [] | Some l \<Rightarrow> l);
                firstUrl = (case vs of [] \<Rightarrow> None | v # _ \<Rightarrow> variant_url v)
            in (case sort_key (\<lambda>v. - bitRateOr0 v) (filter isVideoVariant vs) of
                  [] \<Rightarrow> firstUrl
                | mp4 # _ \<Rightarrow> (case variant_url mp4 of Some u \<Rightarrow> Some u | None \<Rightarrow> firstUrl)))"

definition mediaEntitiesOf :: "MediaEntity list option \<Rightarrow> MediaEntity list" where
  \<comment> \<open>\<open>article.media_entities ?? []\<close>\<close>
  "mediaEntitiesOf ms = (case ms of None \<Rightarrow> [] | Some l \<Rightarrow> l)"

definition mediaByIdStep :: "(string \<rightharpoonup> string) \<Rightarrow> MediaEntity \<Rightarrow> (string \<rightharpoonup> string)" where
  "mediaByIdStep m entity =
     (case media_id entity of
        None \<Rightarrow> m
      | Some i \<Rightarrow>
          if i = [] then m
          else (case resolveMediaUrl (media_info entity) of
                  None \<Rightarrow> m
                | Some u \<Rightarrow> if u = [] then m else m(i \<mapsto> u)))"

definition buildMediaById :: "MediaEntity list option \<Rightarrow> (string \<rightharpoonup> string)" where
  "buildMediaById media = foldl mediaByIdStep Map.empty (mediaEntitiesOf media)"

definition addUrl ::
  "string option \<Rightarrow> string list \<times> string set \<Rightarrow> string option \<Rightarrow> string list \<times> string set" where
  \<comment> \<open>The closure \<open>addUrl\<close> of \<open>collectMediaUrls\<close>, on the pair of \<open>urls\<close> and
      \<open>usedUrls\<close>.\<close>
  "addUrl excludeUrl acc url_opt =
     (case url_opt of
        None \<Rightarrow> acc
      | Some url \<Rightarrow>
          if url = [] then acc
          else if truthy excludeUrl \<and> Some url = excludeUrl then (fst acc, insert url (snd acc))
          else if url \<in> snd acc then acc
          else (fst acc @ [url], insert url (snd acc)))"

definition collectMediaUrls ::
  "MediaEntity list option \<Rightarrow> string set \<Rightarrow> string option \<Rightarrow> string list \<times> string set" where
  "collectMediaUrls media usedUrls excludeUrl =
     foldl (\<lambda>acc entity. addUrl excludeUrl acc (resolveMediaUrl (media_info entity)))
       ([], usedUrls) (mediaEntitiesOf media)"

section \<open>Lines for the entities attached to a block\<close>

record ReferencedTweetInfo =
  info_id :: string
  info_url :: string
  authorName :: "string option"
  authorUsername :: "string option"
  info_text :: "string option"

definition itemMediaId :: "MediaItem \<Rightarrow> string option" where
  \<comment> \<open>\<open>item.mediaId\<close> when it is a string, else \<open>item.media_id\<close> when that is one\<close>
  "itemMediaId item =
     (case item_mediaId item of Some i \<Rightarrow> Some i | None \<Rightarrow> item_media_id item)"

definition imageLine :: "string \<Rightarrow> string \<Rightarrow> string" where
  \<comment> \<open>The template literal \<open>![${altText}](${url})\<close>\<close>
  "imageLine altText url = ''!['' @ altText @ '']('' @ url @ '')''"

definition pushImage :: "string \<Rightarrow> string list \<times> string set \<Rightarrow> string option \<Rightarrow> string list \<times> string set" where
  \<comment> \<open>\<open>if (url && !usedUrls.has(url)) { usedUrls.add(url); lines.push(...) }\<close>, on the
      pair of \<open>lines\<close> and \<open>usedUrls\<close>.\<close>
  "pushImage altText acc url_opt =
     (case url_opt of
        None \<Rightarrow> acc
      | Some url \<Rightarrow>
          if url \<noteq> [] \<and> url \<notin> snd acc
          then (fst acc @ [imageLine altText url], insert url (snd acc))
          else acc)"

definition itemUrl :: "(string \<rightharpoonup> string) \<Rightarrow> MediaItem \<Rightarrow> string option" where
  \<comment> \<open>\<open>mediaId ? mediaById.get(mediaId) : undefined\<close>\<close>
  "itemUrl mediaById item =
     (case itemMediaId item of
        None \<Rightarrow> None
      | Some i \<Rightarrow> if i = [] then None else mediaById i)"

definition resolveEntityMediaLines ::
  "int option \<Rightarrow> EntityMap option \<Rightarrow> EntityLookup \<Rightarrow> (string \<rightharpoonup> string) \<Rightarrow> string set \<Rightarrow>
   string list \<times> string set" where
  "resolveEntityMediaLines entityKey entityMap entityLookup mediaById usedUrls =
     (case resolveEntityEntry entityKey entityMap entityLookup of
        None \<Rightarrow> ([], usedUrls)
      | Some entry \<Rightarrow>
          (case evalue entry of
             None \<Rightarrow> ([], usedUrls)
           | Some v \<Rightarrow>
               if \<not> isMediaType v then ([], usedUrls)
               else
                 let cap = normalizeCaption (case vdata v of None \<Rightarrow> None | Some d \<Rightarrow> caption d);
                     altText = (if cap \<noteq> [] then escapeMarkdownAlt cap else []);
                     items = (case vdata v of
                                None \<Rightarrow> []
                              | Some d \<Rightarrow> (case mediaItems d of None \<Rightarrow> [] | Some l \<Rightarrow> l));
                     acc = foldl (\<lambda>a item. pushImage altText a (itemUrl mediaById item))
                             ([], usedUrls) items
                 in pushImage altText acc (valueUrl v)))"

definition quoteLabel :: string where
  \<comment> \<open>The literal that opens a quoted post, in UTF-8.\<close>
  "quoteLabel =
     [CHR 0x3E, CHR 0x20, CHR 0xE5, CHR 0xBC, CHR 0x95, CHR 0xE7, CHR 0x94, CHR 0xA8,
      CHR 0xE6, CHR 0x8E, CHR 0xA8, CHR 0xE6, CHR 0x96, CHR 0x87]"

definition quoteColon :: string where
  \<comment> \<open>The full-width colon after the label, in UTF-8.\<close>
  "quoteColon = [CHR 0xEF, CHR 0xBC, CHR 0x9A]"

definition resolveEntityTweetLines ::
  "int option \<Rightarrow> EntityMap option \<Rightarrow> EntityLookup \<Rightarrow>
   (string \<rightharpoonup> ReferencedTweetInfo) option \<Rightarrow> string list" where
  "resolveEntityTweetLines entityKey entityMap entityLookup referencedTweets =
     (case resolveEntityEntry entityKey entityMap entityLookup of
        None \<Rightarrow> []
      | Some entry \<Rightarrow>
          (case evalue entry of
             None \<Rightarrow> []
           | Some v \<Rightarrow>
               if vtype v \<noteq> Some ''TWEET'' then []
               else
                 (case (case vdata v of None \<Rightarrow> None | Some d \<Rightarrow> tweetId d) of
                    None \<Rightarrow> []
                  | Some tid \<Rightarrow>
                      if tid = [] then []
                      else
                        let referenced = (case referencedTweets of None \<Rightarrow> None | Some m \<Rightarrow> m tid);
                            username = (case referenced of None \<Rightarrow> None | Some r \<Rightarrow> authorUsername r);
                            name = (case referenced of None \<Rightarrow> None | Some r \<Rightarrow> authorName r);
                            url = (case referenced of
                                     Some r \<Rightarrow> info_url r
                                   | None \<Rightarrow>
                                       (case buildTweetUrl (Some tid) username of
                                          Some u \<Rightarrow> u
                                        | None \<Rightarrow> ''https://x.com/i/web/status/'' @ tid));
                            authorText =
                              (case username of
                                 None \<Rightarrow> name
                               | Some u \<Rightarrow>
                                   if u = [] then name
                                   else (case name of
                                           None \<Rightarrow> Some (''@'' @ u)
                                         | Some n \<Rightarrow>
                                             if n = [] then Some (''@'' @ u)
                                             else Some (n @ '' (@'' @ u @ '')'')));
                            summary =
                              summarizeTweetText
                                (case referenced of None \<Rightarrow> None | Some r \<Rightarrow> info_text r)
                        in [quoteLabel @ (case authorText of
                                            None \<Rightarrow> []
                                          | Some a \<Rightarrow> if a = [] then [] else quoteColon @ a)]
                           @ (if summary \<noteq> [] then [''> '' @ summary] else [])
                           @ [''> '' @ url])))"

section \<open>The block stream renderer\<close>

record ArticleBlock =
  btype :: "string option"
  btext :: "string option"
  entityRanges :: "EntityRange list option"

datatype BlockKind = KList | KQuote | KHeading | KText | KCode | KMedia

datatype ListKind = Ordered | Unordered

record RenderState =
  lines :: "string list"
  previousKind :: "BlockKind option"
  listKind :: "ListKind option"
  orderedIndex :: nat
  inCodeBlock :: bool
  usedUrls :: "string set"

record RenderEnv =
  env_entityMap :: "EntityMap option"
  env_entityLookup :: EntityLookup
  env_mediaById :: "string \<rightharpoonup> string"
  env_mediaLinkMap :: "int \<rightharpoonup> string"
  env_referencedTweets :: "(string \<rightharpoonup> ReferencedTweetInfo) option"

definition stacks :: "BlockKind \<Rightarrow> bool" where
  \<comment> \<open>\<open>kind === "list" || kind === "quote" || kind === "media"\<close>\<close>
  "stacks kind = (kind = KList \<or> kind = KQuote \<or> kind = KMedia)"

definition pushBlock :: "string list \<Rightarrow> BlockKind \<Rightarrow> RenderState \<Rightarrow> RenderState" where
  "pushBlock blockLines kind st =
     (if blockLines = [] then st
      else
        let sep = (if lines st \<noteq> [] \<and> previousKind st \<noteq> None \<and>
                      \<not> (previousKind st = Some kind \<and> stacks kind)
                   then [[]] else [])
        in st\<lparr>lines := lines st @ sep @ blockLines, previousKind := Some kind\<rparr>)"

definition rangesOf :: "ArticleBlock \<Rightarrow> EntityRange list" where
  \<comment> \<open>\<open>Array.isArray(block.entityRanges) ? block.entityRanges : []\<close>\<close>
  "rangesOf block = (case entityRanges block of None \<Rightarrow> [] | Some rs \<Rightarrow> rs)"

definition numericKeys :: "ArticleBlock \<Rightarrow> int list" where
  \<comment> \<open>The keys of the ranges that pass \<open>typeof range?.key === "number"\<close>, in order.\<close>
  "numericKeys block = concat (map (\<lambda>r. case rkey r of None \<Rightarrow> [] | Some k \<Rightarrow> [k]) (rangesOf block))"

definition collectMediaLines :: "RenderEnv \<Rightarrow> ArticleBlock \<Rightarrow> string set \<Rightarrow> string list \<times> string set" where
  "collectMediaLines env block used =
     foldl (\<lambda>acc k.
              let r = resolveEntityMediaLines (Some k) (env_entityMap env) (env_entityLookup env)
                        (env_mediaById env) (snd acc)
              in (fst acc @ fst r, snd r))
       ([], used) (numericKeys block)"

definition collectTweetLines :: "RenderEnv \<Rightarrow> ArticleBlock \<Rightarrow> string list" where
  "collectTweetLines env block =
     concat (map (\<lambda>k. resolveEntityTweetLines (Some k) (env_entityMap env) (env_entityLookup env)
                         (env_referencedTweets env))
               (numericKeys block))"

definition linkLineOf :: "RenderEnv \<Rightarrow> int \<Rightarrow> string list" where
  \<comment> \<open>What one round of the loop of \<open>collectLinkLines\<close> pushes.\<close>
  "linkLineOf env k =
     (case resolveEntityEntry (Some k) (env_entityMap env) (env_entityLookup env) of
        None \<Rightarrow> []
      | Some entry \<Rightarrow>
          (case evalue entry of
             None \<Rightarrow> []
           | Some v \<Rightarrow>
               if vtype v \<noteq> Some ''LINK'' then []
               else (case valueUrl v of None \<Rightarrow> [] | Some u \<Rightarrow> if u = [] then [] else [u])))"

definition collectLinkLines :: "RenderEnv \<Rightarrow> ArticleBlock \<Rightarrow> string list" where
  "collectLinkLines env block = dedupe (concat (map (linkLineOf env) (numericKeys block)))"

definition pushTrailingMedia :: "RenderEnv \<Rightarrow> ArticleBlock \<Rightarrow> RenderState \<Rightarrow> RenderState" where
  \<comment> \<open>\<open>pushTrailingMedia(collectMediaLines(block))\<close>\<close>
  "pushTrailingMedia env block st =
     (let r = collectMediaLines env block (usedUrls st)
      in pushBlock (fst r) KMedia (st\<lparr>usedUrls := snd r\<rparr>))"

definition closeFence :: "RenderState \<Rightarrow> RenderState" where
  \<comment> \<open>\<open>if (inCodeBlock) { lines.push("```"); inCodeBlock = false; previousKind = "code" }\<close>\<close>
  "closeFence st =
     (if inCodeBlock st
      then st\<lparr>lines := lines st @ [''```''], inCodeBlock := False, previousKind := Some KCode\<rparr>
      else st)"

definition isPlaceholder :: "string \<Rightarrow> bool" where
  \<comment> \<open>\<open>/^XIMGPH_\d+$/.test(s)\<close>\<close>
  "isPlaceholder s = (take 7 s = ''XIMGPH_'' \<and> drop 7 s \<noteq> [] \<and> list_all isDigit (drop 7 s))"

definition headingPrefix :: "string \<Rightarrow> string option" where
  "headingPrefix t =
     (if t = ''header-one'' then Some ''# ''
      else if t = ''header-two'' then Some ''## ''
      else if t = ''header-three'' then Some ''### ''
      else if t = ''header-four'' then Some ''#### ''
      else if t = ''header-five'' then Some ''##### ''
      else if t = ''header-six'' then Some ''###### ''
      else None)"

definition renderBlock :: "RenderEnv \<Rightarrow> RenderState \<Rightarrow> ArticleBlock \<Rightarrow> RenderState" where
  \<comment> \<open>One round of the loop of \<open>renderContentBlocks\<close>.\<close>
  "renderBlock env st block =
     (let type = (case btype block of None \<Rightarrow> ''unstyled'' | Some t \<Rightarrow> t);
          rawText = (case btext block of None \<Rightarrow> [] | Some t \<Rightarrow> t);
          text = (if type \<noteq> ''atomic'' \<and> type \<noteq> ''code-block''
                  then renderInlineLinks rawText (rangesOf block) (env_entityMap env)
                         (env_entityLookup env) (env_mediaLinkMap env)
                  else rawText)
      in if type = ''code-block''
         then
           (let st1 = (if \<not> inCodeBlock st
                       then st\<lparr>lines := lines st @ (if lines st \<noteq> [] then [[]] else []) @ [''```''],
                               inCodeBlock := True\<rparr>
                       else st)
            in st1\<lparr>lines := lines st1 @ [text], previousKind := Some KCode, listKind := None,
                    orderedIndex := 0\<rparr>)
         else if type = ''atomic''
         then
           (let st1 = (closeFence st)\<lparr>listKind := None, orderedIndex := 0\<rparr>;
                st2 = pushBlock (collectTweetLines env block) KQuote st1;
                st3 = pushTrailingMedia env block st2
            in pushBlock (collectLinkLines env block) KText st3)
         else
           (let st1 = closeFence st
            in if type = ''unordered-list-item''
               then pushTrailingMedia env block
                      (pushBlock [''- '' @ text] KList
                         (st1\<lparr>listKind := Some Unordered, orderedIndex := 0\<rparr>))
               else if type = ''ordered-list-item''
               then
                 (let n = (if listKind st1 \<noteq> Some Ordered then 0 else orderedIndex st1) + 1
                  in pushTrailingMedia env block
                       (pushBlock [showNat n @ ''. '' @ text] KList
                          (st1\<lparr>listKind := Some Ordered, orderedIndex := n\<rparr>)))
               else
                 (let st2 = st1\<lparr>listKind := None, orderedIndex := 0\<rparr>
                  in case headingPrefix type of
                       Some h \<Rightarrow> pushTrailingMedia env block (pushBlock [h @ text] KHeading st2)
                     | None \<Rightarrow>
                         if type = ''blockquote''
                         then
                           (let quoteLines = (if text \<noteq> [] then splitOn (CHR 0x0A) [] text else [[]])
                            in pushTrailingMedia env block
                                 (pushBlock (map (\<lambda>line. ''> '' @ line) quoteLines) KQuote st2))
                         else if isPlaceholder (trim text)
                         then pushTrailingMedia env block st2
                         else pushTrailingMedia env block (pushBlock [text] KText st2))))"

definition initialState :: "string set \<Rightarrow> RenderState" where
  "initialState used =
     \<lparr>lines = [], previousKind = None, listKind = None, orderedIndex = 0, inCodeBlock = False,
      usedUrls = used\<rparr>"

definition renderContentBlocks ::
  "ArticleBlock list \<Rightarrow> RenderEnv \<Rightarrow> string set \<Rightarrow> string list \<times> string set" where
  \<comment> \<open>The rendered lines, with \<open>usedUrls\<close> as the call leaves it.\<close>
  "renderContentBlocks blocks env used =
     (let st = foldl (renderBlock env) (initialState used) blocks
      in (if inCodeBlock st then lines st @ [''```''] else lines st, usedUrls st))"

section \<open>The top-level assembler\<close>

record ArticleContentState =
  blocks :: "ArticleBlock list option"
  entityMap :: "EntityMap option"

record ArticleEntity =
  title :: "string option"
  plain_text :: "string option"
  preview_text :: "string option"
  content_state :: "ArticleContentState option"
  cover_media :: "MediaEntity option"
  media_entities :: "MediaEntity list option"

text \<open>
  The argument of \<open>formatArticleMarkdown\<close> has type \<open>unknown\<close>. The values here are
  \<open>undefined\<close>, \<open>null\<close>, the booleans, the Numbers, the BigInts, the strings, the arrays
  and the plain objects of data properties, with the properties of an object in the order
  of their enumeration. Functions, symbols, accessors, \<open>toJSON\<close> methods and objects that
  hold themselves are left out.

  A Number is kept as what the code reads of it: whether it is falsy (\<open>0\<close>, \<open>-0\<close> and \<open>NaN\<close>
  are), and the text that \<open>Number::toString\<close> gives for it, where \<open>NaN\<close> and the infinities
  have \<open>None\<close>, since \<open>JSON.stringify\<close> prints \<open>null\<close> for them.
\<close>

datatype number = Number (numberFalsy: bool) (numberText: "string option")

datatype json =
  JUndefined | JNull | JBool bool | JNum number | JBigInt int | JStr string | JArr "json list"
| JObj "(string \<times> json) list"

definition truthyJson :: "json \<Rightarrow> bool" where
  "truthyJson v =
     (case v of
        JUndefined \<Rightarrow> False | JNull \<Rightarrow> False | JBool b \<Rightarrow> b | JNum n \<Rightarrow> \<not> numberFalsy n
      | JBigInt i \<Rightarrow> i \<noteq> 0 | JStr s \<Rightarrow> s \<noteq> [] | JArr _ \<Rightarrow> True | JObj _ \<Rightarrow> True)"

definition intNumber :: "int \<Rightarrow> number" where
  \<comment> \<open>The Number of an integer below \<open>10^21\<close> in magnitude, which prints as its digits.\<close>
  "intNumber n = Number (n = 0) (Some (showInt n))"

definition typeofObject :: "json \<Rightarrow> bool" where
  \<comment> \<open>\<open>typeof value === "object"\<close>\<close>
  "typeofObject v =
     (case v of JNull \<Rightarrow> True | JArr _ \<Rightarrow> True | JObj _ \<Rightarrow> True | _ \<Rightarrow> False)"

definition property :: "json \<Rightarrow> string \<Rightarrow> json option" where
  \<comment> \<open>\<open>value.name\<close> for one of the four names the shape test reads; \<open>None\<close> is undefined.\<close>
  "property v name = (case v of JObj props \<Rightarrow> map_of props name | _ \<Rightarrow> None)"

definition isStringProperty :: "json \<Rightarrow> string \<Rightarrow> bool" where
  \<comment> \<open>\<open>typeof value.name === "string"\<close>\<close>
  "isStringProperty v name = (case property v name of Some (JStr _) \<Rightarrow> True | _ \<Rightarrow> False)"

definition isTruthyProperty :: "json \<Rightarrow> string \<Rightarrow> bool" where
  "isTruthyProperty v name = (case property v name of Some w \<Rightarrow> truthyJson w | None \<Rightarrow> False)"

definition coerceArticleEntity :: "(json \<Rightarrow> ArticleEntity) \<Rightarrow> json \<Rightarrow> ArticleEntity option" where
  \<comment> \<open>The first argument is the type assertion \<open>value as ArticleEntity\<close>: how the value
      reads at the declared type, which the file of type declarations fixes.\<close>
  "coerceArticleEntity asArticle v =
     (if \<not> truthyJson v \<or> \<not> typeofObject v then None
      else if isStringProperty v ''title'' \<or> isStringProperty v ''plain_text'' \<or>
              isStringProperty v ''preview_text'' \<or> isTruthyProperty v ''content_state''
      then Some (asArticle v)
      else None)"

definition hexDigit :: "nat \<Rightarrow> char" where
  "hexDigit d = (if d < 10 then char_of (48 + d) else char_of (87 + d))"

definition quoteChar :: "char \<Rightarrow> string" where
  \<comment> \<open>One character of a string inside \<open>JSON.stringify\<close>.\<close>
  "quoteChar c =
     (if c = CHR 0x22 then [CHR 0x5C, CHR 0x22]
      else if c = CHR 0x5C then [CHR 0x5C, CHR 0x5C]
      else if c = CHR 0x08 then [CHR 0x5C, CHR ''b'']
      else if c = CHR 0x09 then [CHR 0x5C, CHR ''t'']
      else if c = CHR 0x0A then [CHR 0x5C, CHR ''n'']
      else if c = CHR 0x0C then [CHR 0x5C, CHR ''f'']
      else if c = CHR 0x0D then [CHR 0x5C, CHR ''r'']
      else if (of_char c :: nat) < 32
      then [CHR 0x5C, CHR ''u'', CHR ''0'', CHR ''0'',
            hexDigit ((of_char c :: nat) div 16), hexDigit ((of_char c :: nat) mod 16)]
      else [c])"

definition quoteJson :: "string \<Rightarrow> string" where
  "quoteJson s = [CHR 0x22] @ concat (map quoteChar s) @ [CHR 0x22]"

datatype error = TypeError

fun sequenceResults :: "('e + 'a) list \<Rightarrow> 'e + 'a list" where
  \<comment> \<open>The results of a loop that the first error ends.\<close>
  "sequenceResults [] = Inr []"
| "sequenceResults (r # rs) =
     (case r of
        Inl e \<Rightarrow> Inl e
      | Inr x \<Rightarrow> (case sequenceResults rs of Inl e \<Rightarrow> Inl e | Inr xs \<Rightarrow> Inr (x # xs)))"

fun serializeJSONProperty :: "string \<Rightarrow> json \<Rightarrow> error + string option" where
  \<comment> \<open>What \<open>JSON.stringify(value, null, 2)\<close> does with a value at the given indentation:
      \<open>None\<close> is \<open>undefined\<close>, the result for a value that has no JSON text, and the error
      is the \<open>TypeError\<close> that a BigInt raises.\<close>
  "serializeJSONProperty ind JUndefined = Inr None"
| "serializeJSONProperty ind JNull = Inr (Some ''null'')"
| "serializeJSONProperty ind (JBool b) = Inr (Some (if b then ''true'' else ''false''))"
| "serializeJSONProperty ind (JNum n) =
     Inr (Some (case numberText n of Some t \<Rightarrow> t | None \<Rightarrow> ''null''))"
| "serializeJSONProperty ind (JBigInt i) = Inl TypeError"
| "serializeJSONProperty ind (JStr s) = Inr (Some (quoteJson s))"
| "serializeJSONProperty ind (JArr xs) =
     (case sequenceResults (map (serializeJSONProperty (ind @ ''  '')) xs) of
        Inl e \<Rightarrow> Inl e
      | Inr parts \<Rightarrow>
          Inr (Some
            (if parts = [] then ''[]''
             else ''['' @ [CHR 0x0A]
                  @ joinWith ('','' @ [CHR 0x0A])
                      (map (\<lambda>p. ind @ ''  '' @ (case p of None \<Rightarrow> ''null'' | Some t \<Rightarrow> t)) parts)
                  @ [CHR 0x0A] @ ind @ '']'')))"
| "serializeJSONProperty ind (JObj props) =
     (case sequenceResults (map (\<lambda>kv. serializeJSONProperty (ind @ ''  '') (snd kv)) props) of
        Inl e \<Rightarrow> Inl e
      | Inr parts \<Rightarrow>
          (let members =
                 concat (map (\<lambda>kp. case snd kp of
                                       None \<Rightarrow> []
                                     | Some t \<Rightarrow> [ind @ ''  '' @ quoteJson (fst kp) @ '': '' @ t])
                           (zip (map fst props) parts))
           in Inr (Some
                (if members = [] then ''{}''
                 else ''{'' @ [CHR 0x0A] @ joinWith ('','' @ [CHR 0x0A]) members
                      @ [CHR 0x0A] @ ind @ ''}''))))"

definition stringify :: "json \<Rightarrow> error + string option" where
  \<comment> \<open>\<open>JSON.stringify(value, null, 2)\<close>\<close>
  "stringify v = serializeJSONProperty [] v"

definition templateText :: "string option \<Rightarrow> string" where
  \<comment> \<open>The result of \<open>JSON.stringify\<close> inside a template literal\<close>
  "templateText t = (case t of None \<Rightarrow> ''undefined'' | Some s \<Rightarrow> s)"

record FormatArticleResult =
  markdown :: string
  coverUrl :: "string option"

record FormatArticleOptions =
  referencedTweets :: "(string \<rightharpoonup> ReferencedTweetInfo) option"

definition blocksOf :: "ArticleEntity \<Rightarrow> ArticleBlock list option" where
  \<comment> \<open>\<open>candidate.content_state?.blocks\<close>\<close>
  "blocksOf candidate = (case content_state candidate of None \<Rightarrow> None | Some cs \<Rightarrow> blocks cs)"

definition entityMapOf :: "ArticleEntity \<Rightarrow> EntityMap option" where
  \<comment> \<open>\<open>candidate.content_state?.entityMap\<close>\<close>
  "entityMapOf candidate =
     (case content_state candidate of None \<Rightarrow> None | Some cs \<Rightarrow> entityMap cs)"

definition coverUrlOf :: "ArticleEntity \<Rightarrow> string option" where
  \<comment> \<open>\<open>resolveMediaUrl(candidate.cover_media?.media_info) ?? null\<close>\<close>
  "coverUrlOf candidate =
     resolveMediaUrl (case cover_media candidate of None \<Rightarrow> None | Some c \<Rightarrow> media_info c)"

definition titleLines :: "ArticleEntity \<Rightarrow> string list" where
  "titleLines candidate =
     (let t = (case title candidate of None \<Rightarrow> [] | Some s \<Rightarrow> trim s)
      in if t \<noteq> [] then [''# '' @ t] else [])"

definition coverUsed :: "ArticleEntity \<Rightarrow> string set" where
  \<comment> \<open>\<open>usedUrls\<close> after \<open>if (coverUrl) usedUrls.add(coverUrl)\<close>\<close>
  "coverUsed candidate = (if truthy (coverUrlOf candidate) then set_option (coverUrlOf candidate) else {})"

definition renderEnvOf :: "ArticleEntity \<Rightarrow> FormatArticleOptions \<Rightarrow> RenderEnv" where
  "renderEnvOf candidate options =
     \<lparr>env_entityMap = entityMapOf candidate,
      env_entityLookup = buildEntityLookup (entityMapOf candidate),
      env_mediaById = buildMediaById (media_entities candidate),
      env_mediaLinkMap = buildMediaLinkMap (entityMapOf candidate),
      env_referencedTweets = referencedTweets options\<rparr>"

definition bodyLines :: "ArticleEntity \<Rightarrow> FormatArticleOptions \<Rightarrow> string list \<times> string set" where
  \<comment> \<open>What the body of the article adds to \<open>lines\<close> after the title, with \<open>usedUrls\<close>
      as it stands before the gallery.\<close>
  "bodyLines candidate options =
     (let sep = (if titleLines candidate \<noteq> [] then [[]] else [])
      in case blocksOf candidate of
           Some (b # bs) \<Rightarrow>
             (let r = renderContentBlocks (b # bs) (renderEnvOf candidate options)
                        (coverUsed candidate)
              in (if fst r \<noteq> [] then sep @ fst r else [], snd r))
         | _ \<Rightarrow>
             (case plain_text candidate of
                Some p \<Rightarrow> (sep @ [trim p], coverUsed candidate)
              | None \<Rightarrow>
                  (case preview_text candidate of
                     Some p \<Rightarrow> (sep @ [trim p], coverUsed candidate)
                   | None \<Rightarrow> ([], coverUsed candidate))))"

definition galleryUrls :: "ArticleEntity \<Rightarrow> FormatArticleOptions \<Rightarrow> string list" where
  \<comment> \<open>The local \<open>mediaUrls\<close> of \<open>formatArticleMarkdown\<close>.\<close>
  "galleryUrls candidate options =
     fst (collectMediaUrls (media_entities candidate) (snd (bodyLines candidate options))
            (coverUrlOf candidate))"

definition galleryLines :: "string list \<Rightarrow> string list" where
  "galleryLines mediaUrls =
     (if mediaUrls \<noteq> [] then [[], ''## Media'', []] @ map (\<lambda>url. ''![]('' @ url @ '')'') mediaUrls
      else [])"

definition formatArticleMarkdown ::
  "(json \<Rightarrow> ArticleEntity) \<Rightarrow> json \<Rightarrow> FormatArticleOptions \<Rightarrow>
   error + FormatArticleResult" where
  \<comment> \<open>\<open>Inl\<close> is what the call throws, \<open>Inr\<close> what it returns.\<close>
  "formatArticleMarkdown asArticle article options =
     (case coerceArticleEntity asArticle article of
        None \<Rightarrow>
          (case stringify article of
             Inl e \<Rightarrow> Inl e
           | Inr t \<Rightarrow>
               Inr \<lparr>markdown = ''```json'' @ [CHR 0x0A] @ templateText t @ [CHR 0x0A] @ ''```'',
                    coverUrl = None\<rparr>)
      | Some candidate \<Rightarrow>
          Inr \<lparr>markdown =
                 trimEnd (joinWith [CHR 0x0A]
                   (titleLines candidate @ fst (bodyLines candidate options)
                    @ galleryLines (galleryUrls candidate options))),
               coverUrl = coverUrlOf candidate\<rparr>)"

section \<open>The referenced-content resolver\<close>

definition tweetIdStep :: "string list \<Rightarrow> ArticleEntityMapEntry \<Rightarrow> string list" where
  \<comment> \<open>One round of the loop of \<open>extractReferencedTweetIds\<close>; \<open>seen\<close> holds what \<open>ids\<close>
      holds.\<close>
  "tweetIdStep ids entry =
     (case evalue entry of
        None \<Rightarrow> ids
      | Some v \<Rightarrow>
          if vtype v \<noteq> Some ''TWEET'' then ids
          else (case (case vdata v of None \<Rightarrow> None | Some d \<Rightarrow> tweetId d) of
                  None \<Rightarrow> ids
                | Some tid \<Rightarrow> if tid = [] \<or> tid \<in> set ids then ids else ids @ [tid]))"

definition extractReferencedTweetIds :: "(json \<Rightarrow> ArticleEntity) \<Rightarrow> json \<Rightarrow> string list" where
  "extractReferencedTweetIds asArticle article =
     (case coerceArticleEntity asArticle article of
        None \<Rightarrow> []
      | Some candidate \<Rightarrow>
          (case entityMapOf candidate of
             None \<Rightarrow> []
           | Some em \<Rightarrow> foldl tweetIdStep [] (map snd em)))"

text \<open>
  The value that \<open>fetchXTweet\<close> resolves to, by the paths \<open>extractReferencedTweetInfo\<close>
  reads. The names, the handles and \<open>rest_id\<close> are read behind a test
  \<open>typeof \<dots> === "string"\<close>: each is the string at its path, \<open>None\<close> where the path leads
  nowhere or to a value that is not a string. The three texts are chained with \<open>??\<close>
  before the test, so a text keeps apart \<open>undefined\<close> or \<open>null\<close>, a value that is not a
  string, and a string.
\<close>

datatype textField = Nullish | NonString | Text string

record Tweet =
  core_name :: "string option"
  core_screen_name :: "string option"
  legacy_name :: "string option"
  legacy_screen_name :: "string option"
  note_tweet_text :: textField
  legacy_full_text :: textField
  legacy_text :: textField
  rest_id :: "string option"

definition coalesce :: "textField \<Rightarrow> textField \<Rightarrow> textField" where
  \<comment> \<open>\<open>a ?? b\<close> on the texts\<close>
  "coalesce a b = (case a of Nullish \<Rightarrow> b | _ \<Rightarrow> a)"

definition stringOf :: "textField \<Rightarrow> string option" where
  \<comment> \<open>\<open>typeof text === "string" ? text : undefined\<close>\<close>
  "stringOf t = (case t of Text s \<Rightarrow> Some s | _ \<Rightarrow> None)"

definition orElse :: "'a option \<Rightarrow> 'a option \<Rightarrow> 'a option" where
  \<comment> \<open>\<open>a ?? b\<close>\<close>
  "orElse a b = (case a of Some x \<Rightarrow> Some x | None \<Rightarrow> b)"

definition extractReferencedTweetInfo :: "Tweet \<Rightarrow> string \<Rightarrow> ReferencedTweetInfo" where
  "extractReferencedTweetInfo tweet fallbackTweetId =
     (let name = orElse (core_name tweet) (legacy_name tweet);
          username = orElse (core_screen_name tweet) (legacy_screen_name tweet);
          text = coalesce (note_tweet_text tweet)
                   (coalesce (legacy_full_text tweet) (legacy_text tweet));
          tid = (case rest_id tweet of
                   None \<Rightarrow> fallbackTweetId
                 | Some r \<Rightarrow> if length r > 0 then r else fallbackTweetId);
          url = (if truthy username
                 then ''https://x.com/'' @ (case username of Some u \<Rightarrow> u | None \<Rightarrow> []) @ ''/status/'' @ tid
                 else ''https://x.com/i/web/status/'' @ tid)
      in \<lparr>info_id = tid, info_url = url, authorName = name, authorUsername = username,
          info_text = stringOf text\<rparr>)"

definition degradedInfo :: "string \<Rightarrow> ReferencedTweetInfo" where
  \<comment> \<open>The record of the \<open>catch\<close> branch: \<open>{ id, url }\<close>\<close>
  "degradedInfo i =
     \<lparr>info_id = i, info_url = ''https://x.com/i/web/status/'' @ i, authorName = None,
      authorUsername = None, info_text = None\<rparr>"

definition failureMessage :: "string \<Rightarrow> string \<Rightarrow> string" where
  "failureMessage i err = ''[x-to-markdown] Failed to fetch referenced tweet '' @ i @ '': '' @ err"

definition resolveStep ::
  "(string \<Rightarrow> string + Tweet) \<Rightarrow> (string \<rightharpoonup> ReferencedTweetInfo) \<times> string list \<Rightarrow> string \<Rightarrow>
   (string \<rightharpoonup> ReferencedTweetInfo) \<times> string list" where
  \<comment> \<open>One round of the loop of \<open>resolveReferencedTweetsFromArticle\<close>, on the pair of the
      map and the messages passed to \<open>log\<close>.\<close>
  "resolveStep fetchXTweet acc i =
     (case fetchXTweet i of
        Inr tweet \<Rightarrow> ((fst acc)(i \<mapsto> extractReferencedTweetInfo tweet i), snd acc)
      | Inl err \<Rightarrow> ((fst acc)(i \<mapsto> degradedInfo i), snd acc @ [failureMessage i err]))"

definition resolveReferencedTweetsFromArticle ::
  "(json \<Rightarrow> ArticleEntity) \<Rightarrow> (string \<Rightarrow> string + Tweet) \<Rightarrow> json \<Rightarrow>
   (string \<rightharpoonup> ReferencedTweetInfo) \<times> string list" where
  \<comment> \<open>\<open>fetchXTweet id\<close> is the outcome of awaiting the lookup of \<open>id\<close> with the caller's
      cookies: \<open>Inr\<close> the value it resolves to, \<open>Inl\<close> the message of what it throws.\<close>
  "resolveReferencedTweetsFromArticle asArticle fetchXTweet article =
     foldl (resolveStep fetchXTweet) (Map.empty, []) (extractReferencedTweetIds asArticle article)"

section \<open>The copy of the renderer without referenced content\<close>

text \<open>
  The repository holds the renderer twice. The definitions above follow the copy that
  resolves entities through \<open>resolveEntityEntry\<close> and renders referenced posts. The copy in
  \<open>skills/baoyu-danger-x-to-markdown/scripts/markdown.ts\<close> reads an entity by its
  positional index only (\<open>entityMap[String(key)]\<close>), records a media-link pair under the
  positional index only, and gives an atomic block without media lines the next URL of a
  queue. Its functions carry the suffix \<open>Positional\<close> here; \<open>pushBlock\<close> and the helpers
  are the same in both copies.
\<close>

fun assignLinksPositional ::
  "MediaEntry list \<Rightarrow> LinkEntry list \<Rightarrow> (int \<rightharpoonup> string) \<Rightarrow> (int \<rightharpoonup> string)" where
  "assignLinksPositional [] pool m = m"
| "assignLinksPositional (media # rest) pool m =
     (if pool = [] then m
      else
        let linkIdx = (case findIndex (\<lambda>l. l_key l > m_key media) pool of
                         None \<Rightarrow> 0 | Some i \<Rightarrow> i);
            link = pool ! linkIdx;
            pool' = take linkIdx pool @ drop (Suc linkIdx) pool
        in assignLinksPositional rest pool' (m(m_idx media \<mapsto> l_url link)))"

definition buildMediaLinkMapPositional :: "EntityMap option \<Rightarrow> (int \<rightharpoonup> string)" where
  "buildMediaLinkMapPositional entityMap' =
     (case entityMap' of
        None \<Rightarrow> Map.empty
      | Some em \<Rightarrow>
          (let mediaEntries = fst (collectEntries em);
               linkEntries = snd (collectEntries em)
           in if mediaEntries = [] \<or> linkEntries = [] then Map.empty
              else assignLinksPositional (sort_key m_key mediaEntries)
                     (sort_key l_key linkEntries) Map.empty))"

definition rangeUrlPositional :: "EntityMap \<Rightarrow> (int \<rightharpoonup> string) \<Rightarrow> int \<Rightarrow> string option" where
  "rangeUrlPositional em mediaLinkMap k =
     (case rawEntry em k of
        None \<Rightarrow> None
      | Some entry \<Rightarrow>
          (case evalue entry of
             None \<Rightarrow> None
           | Some v \<Rightarrow>
               if vtype v = Some ''LINK'' \<and> valueUrl v \<noteq> None then valueUrl v
               else if isMediaType v then mediaLinkMap k
               else None))"

definition applyRangePositional ::
  "EntityMap \<Rightarrow> (int \<rightharpoonup> string) \<Rightarrow> string \<Rightarrow> EntityRange \<Rightarrow> string" where
  "applyRangePositional em mediaLinkMap result r =
     (case (rkey r, roffset r, rlength r) of
        (Some k, Some off, Some len) \<Rightarrow>
          (case rangeUrlPositional em mediaLinkMap k of
             None \<Rightarrow> result
           | Some u \<Rightarrow>
               if u = [] then result
               else slice result 0 off @ ''['' @ slice result off (off + len) @ '']('' @ u @ '')''
                      @ sliceFrom result (off + len))
      | _ \<Rightarrow> result)"

definition renderInlineLinksPositional ::
  "string \<Rightarrow> EntityRange list \<Rightarrow> EntityMap option \<Rightarrow> (int \<rightharpoonup> string) \<Rightarrow> string" where
  "renderInlineLinksPositional text ranges entityMap' mediaLinkMap =
     (case entityMap' of
        None \<Rightarrow> text
      | Some em \<Rightarrow>
          if ranges = [] then text
          else
            let valid = filter validRange ranges
            in if valid = [] then text
               else foldl (applyRangePositional em mediaLinkMap) text
                      (sort_key (\<lambda>r. - offsetOr0 r) valid))"





section \<open>The merge heuristic, as the design describes it\<close>

text \<open>
  The design's wording of the pairing, to be compared with \<open>assignLinks\<close>: for each media
  entity in turn, the first remaining link whose key is strictly greater than the media's
  key, or else the first remaining link; the link is removed from the pool and the pair is
  recorded under the media's positional index and under its logical key. A media entity
  that finds the pool empty is passed over.
\<close>

definition chooseLink :: "int \<Rightarrow> LinkEntry list \<Rightarrow> LinkEntry option" where
  "chooseLink k pool =
     (case find (\<lambda>l. l_key l > k) pool of
        Some l \<Rightarrow> Some l
      | None \<Rightarrow> (case pool of [] \<Rightarrow> None | l # _ \<Rightarrow> Some l))"

fun pairingSpec :: "MediaEntry list \<Rightarrow> LinkEntry list \<Rightarrow> (MediaEntry \<times> LinkEntry) list" where
  "pairingSpec [] pool = []"
| "pairingSpec (media # rest) pool =
     (case chooseLink (m_key media) pool of
        None \<Rightarrow> pairingSpec rest pool
      | Some l \<Rightarrow> (media, l) # pairingSpec rest (remove1 l pool))"

definition recordPair :: "(int \<rightharpoonup> string) \<Rightarrow> MediaEntry \<times> LinkEntry \<Rightarrow> (int \<rightharpoonup> string)" where
  "recordPair m p = m(m_idx (fst p) \<mapsto> l_url (snd p), m_key (fst p) \<mapsto> l_url (snd p))"

definition recordIndex :: "(int \<rightharpoonup> string) \<Rightarrow> MediaEntry \<times> LinkEntry \<Rightarrow> (int \<rightharpoonup> string)" where
  \<comment> \<open>What the copy without logical keys records for a pair.\<close>
  "recordIndex m p = m(m_idx (fst p) \<mapsto> l_url (snd p))"

definition linkIndex :: "int \<Rightarrow> LinkEntry list \<Rightarrow> nat" where
  \<comment> \<open>The local \<open>linkIdx\<close> of \<open>buildMediaLinkMap\<close>.\<close>
  "linkIndex k pool = (case findIndex (\<lambda>l. l_key l > k) pool of None \<Rightarrow> 0 | Some i \<Rightarrow> i)"

section \<open>Example inputs\<close>

definition exampleEntry :: "string \<Rightarrow> string \<Rightarrow> string option \<Rightarrow> ArticleEntityMapEntry" where
  \<comment> \<open>\<open>{ key: k, value: { type: t, data: { url: u } } }\<close>\<close>
  "exampleEntry k t u =
     \<lparr>ekey = Some k,
      evalue = Some \<lparr>vtype = Some t,
                     vdata = Some \<lparr>caption = None, mediaItems = None, data_url = u, tweetId = None\<rparr>\<rparr>\<rparr>"

definition mergeExample :: EntityMap where
  \<comment> \<open>Media entities with the logical keys 1, 3, 5 and link entities with the keys 2, 4.\<close>
  "mergeExample =
     [(0, exampleEntry ''1'' ''MEDIA'' None),
      (1, exampleEntry ''2'' ''LINK'' (Some ''https://example.com/2'')),
      (2, exampleEntry ''3'' ''MEDIA'' None),
      (3, exampleEntry ''4'' ''LINK'' (Some ''https://example.com/4'')),
      (4, exampleEntry ''5'' ''MEDIA'' None)]"

definition mediaOnlyExample :: EntityMap where
  "mediaOnlyExample = [(0, exampleEntry ''1'' ''MEDIA'' None)]"

definition hasLogicalKey :: "int \<Rightarrow> nat \<times> ArticleEntityMapEntry \<Rightarrow> bool" where
  \<comment> \<open>The entry declares the logical key \<open>k\<close>, a finite Number.\<close>
  "hasLogicalKey k ie = (logicalKeyOf (snd ie) = Some k \<and> isFiniteNumber k)"

definition hasIndex :: "int \<Rightarrow> nat \<times> ArticleEntityMapEntry \<Rightarrow> bool" where
  \<comment> \<open>The entry stands under the positional index \<open>k\<close>, a finite Number.\<close>
  "hasIndex k ie = (numberOfIndex (fst ie) = k \<and> isFiniteNumber k)"

definition duplicateKeyExample :: EntityMap where
  \<comment> \<open>Two entries that declare the logical key 7, a third that declares it as well, and a
      last one whose key is not a number.\<close>
  "duplicateKeyExample =
     [(0, exampleEntry ''-3'' ''LINK'' (Some ''https://example.com/zero'')),
      (1, exampleEntry '' 7'' ''LINK'' (Some ''https://example.com/first'')),
      (2, exampleEntry ''7px'' ''LINK'' (Some ''https://example.com/second'')),
      (3, exampleEntry ''+7'' ''LINK'' (Some ''https://example.com/third'')),
      (5, exampleEntry ''px7'' ''LINK'' (Some ''https://example.com/last''))]"

definition roundedKeyExample :: EntityMap where
  \<comment> \<open>Two key strings that denote different integers and the same Number, \<open>2^53\<close>.\<close>
  "roundedKeyExample =
     [(0, exampleEntry ''9007199254740993'' ''LINK'' (Some ''https://example.com/odd'')),
      (1, exampleEntry ''9007199254740992'' ''LINK'' (Some ''https://example.com/even''))]"

definition emptyLookup :: EntityLookup where
  \<comment> \<open>The lookup of \<open>buildEntityLookup(undefined)\<close>\<close>
  "emptyLookup = \<lparr>byIndex = Map.empty, byLogicalKey = Map.empty\<rparr>"

definition twoLinksExample :: EntityMap where
  \<comment> \<open>Two link entities, with the logical keys 0 and 1.\<close>
  "twoLinksExample =
     [(0, exampleEntry ''0'' ''LINK'' (Some ''https://example.com/a'')),
      (1, exampleEntry ''1'' ''LINK'' (Some ''https://example.com/b''))]"

definition exampleRange :: "int \<Rightarrow> int \<Rightarrow> int \<Rightarrow> EntityRange" where
  \<comment> \<open>\<open>{ key: k, offset: off, length: len }\<close>\<close>
  "exampleRange k off len = \<lparr>rkey = Some k, roffset = Some off, rlength = Some len\<rparr>"




definition emptyArticle :: ArticleEntity where
  "emptyArticle =
     \<lparr>title = None, plain_text = None, preview_text = None, content_state = None,
      cover_media = None, media_entities = None\<rparr>"

definition tweetEntry :: "string \<Rightarrow> string \<Rightarrow> ArticleEntityMapEntry" where
  "tweetEntry k tid =
     \<lparr>ekey = Some k,
      evalue = Some \<lparr>vtype = Some ''TWEET'',
                     vdata = Some \<lparr>caption = None, mediaItems = None, data_url = None,
                                   tweetId = Some tid\<rparr>\<rparr>\<rparr>"

definition quotingArticle :: ArticleEntity where
  "quotingArticle =
     emptyArticle\<lparr>content_state :=
       Some \<lparr>blocks = Some [],
             entityMap = Some [(0, tweetEntry ''0'' ''999''), (1, tweetEntry ''1'' ''1000''),
                               (2, tweetEntry ''2'' ''998''), (3, tweetEntry ''3'' ''1001''),
                               (4, tweetEntry ''4'' ''999'')]\<rparr>\<rparr>"

definition quotingJson :: json where
  "quotingJson =
     JObj [(''content_state'',
            JObj [(''blocks'', JArr []),
                  (''entityMap'',
                   JArr [JObj [(''key'', JStr ''0''),
                               (''value'', JObj [(''type'', JStr ''TWEET''),
                                                 (''data'', JObj [(''tweetId'', JStr ''999'')])])],
                         JObj [(''key'', JStr ''1''),
                               (''value'', JObj [(''type'', JStr ''TWEET''),
                                                 (''data'', JObj [(''tweetId'', JStr ''1000'')])])],
                         JObj [(''key'', JStr ''2''),
                               (''value'', JObj [(''type'', JStr ''TWEET''),
                                                 (''data'', JObj [(''tweetId'', JStr ''998'')])])],
                         JObj [(''key'', JStr ''3''),
                               (''value'', JObj [(''type'', JStr ''TWEET''),
                                                 (''data'', JObj [(''tweetId'', JStr ''1001'')])])],
                         JObj [(''key'', JStr ''4''),
                               (''value'', JObj [(''type'', JStr ''TWEET''),
                                                 (''data'', JObj [(''tweetId'', JStr ''999'')])])]])])]"

definition exampleTweet :: Tweet where
  "exampleTweet =
     \<lparr>core_name = Some ''Ada'', core_screen_name = Some ''ada'', legacy_name = Some ''Old'',
      legacy_screen_name = Some ''old'', note_tweet_text = Nullish,
      legacy_full_text = Text ''hello'', legacy_text = Text ''hel'', rest_id = Some ''1000''\<rparr>"

definition legacyTweet :: Tweet where
  \<comment> \<open>A result with the author in its legacy fields only, a note text that is not a
      string, and no \<open>rest_id\<close>.\<close>
  "legacyTweet =
     \<lparr>core_name = None, core_screen_name = None, legacy_name = Some ''Bob'',
      legacy_screen_name = None, note_tweet_text = NonString,
      legacy_full_text = Text ''ignored'', legacy_text = Nullish, rest_id = None\<rparr>"

definition exampleFetch :: "string \<Rightarrow> string + Tweet" where
  "exampleFetch i =
     (if i = ''1000'' then Inr exampleTweet
      else if i = ''1001'' then Inr legacyTweet
      else if i = ''998'' then Inl ''rate limited''
      else Inl ''not found'')"

definition resolvedInfo :: "(string \<Rightarrow> string + Tweet) \<Rightarrow> string \<Rightarrow> ReferencedTweetInfo" where
  \<comment> \<open>What one round of the loop stores for \<open>i\<close>.\<close>
  "resolvedInfo fetchXTweet i =
     (case fetchXTweet i of Inl err \<Rightarrow> degradedInfo i | Inr tweet \<Rightarrow> extractReferencedTweetInfo tweet i)"

definition twoLineText :: string where
  \<comment> \<open>Two lines, with white space around the newlines between them.\<close>
  "twoLineText = ''a '' @ [CHR 0x0D, CHR 0x0A, CHR 0x0A] @ '' b''"

definition sixLineText :: string where
  \<comment> \<open>Six lines between single line feeds, some of them empty or blank, with carriage
      returns, tabs and runs of spaces.\<close>
  "sixLineText =
     ''  a '' @ [CHR 0x0D, CHR 0x0A, CHR 0x0A, CHR 0x09] @ '' b  c '' @ [CHR 0x0A] @ ''   '' @
     [CHR 0x0D, CHR 0x0A] @ ''d'' @ [CHR 0x0D] @ ''e'' @ [CHR 0x0A]"

definition longTwoLineText :: string where
  "longTwoLineText = replicate 200 (CHR ''x'') @ [CHR 0x0A] @ replicate 100 (CHR ''y'')"

definition keptLines :: "string list \<Rightarrow> string list" where
  \<comment> \<open>The lines that \<open>summarizeTweetText\<close> joins: each one trimmed, the empty ones
      dropped.\<close>
  "keptLines ls = filter (\<lambda>line. line \<noteq> []) (map trim ls)"

fun countOccurrences :: "string \<Rightarrow> string \<Rightarrow> nat" where
  \<comment> \<open>The number of positions of a text at which the string \<open>p\<close> stands.\<close>
  "countOccurrences p [] = 0"
| "countOccurrences p (c # cs) =
     (if take (length p) (c # cs) = p then 1 else 0) + countOccurrences p cs"

definition imageEntity :: "string \<Rightarrow> string \<Rightarrow> MediaEntity" where
  \<comment> \<open>\<open>{ media_id: i, media_info: { original_img_url: u } }\<close>\<close>
  "imageEntity i u =
     \<lparr>media_id = Some i,
      media_info = Some \<lparr>original_img_url = Some u, preview_image = None, variants = None\<rparr>\<rparr>"

definition repeatedUrlArticle :: ArticleEntity where
  \<comment> \<open>A paragraph whose words link to the URL that a media entity has too.\<close>
  "repeatedUrlArticle =
     \<lparr>title = None, plain_text = None, preview_text = None,
      content_state =
        Some \<lparr>blocks = Some [\<lparr>btype = Some ''unstyled'', btext = Some ''see here'',
                               entityRanges = Some [exampleRange 0 4 4]\<rparr>],
              entityMap = Some [(0, exampleEntry ''0'' ''LINK'' (Some ''https://example.com/p.png''))]\<rparr>,
      cover_media = None,
      media_entities = Some [imageEntity ''m1'' ''https://example.com/p.png'']\<rparr>"

definition repeatedUrlJson :: json where
  \<comment> \<open>The value that reads as \<open>repeatedUrlArticle\<close>.\<close>
  "repeatedUrlJson =
     JObj [(''content_state'',
            JObj [(''blocks'',
                   JArr [JObj [(''type'', JStr ''unstyled''), (''text'', JStr ''see here''),
                               (''entityRanges'',
                                JArr [JObj [(''key'', JNum (intNumber 0)), (''offset'', JNum (intNumber 4)),
                                            (''length'', JNum (intNumber 4))]])]]),
                  (''entityMap'',
                   JArr [JObj [(''key'', JStr ''0''),
                               (''value'',
                                JObj [(''type'', JStr ''LINK''),
                                      (''data'', JObj [(''url'', JStr ''https://example.com/p.png'')])])]])]),
           (''media_entities'',
            JArr [JObj [(''media_id'', JStr ''m1''),
                        (''media_info'',
                         JObj [(''original_img_url'', JStr ''https://example.com/p.png'')])]])]"

definition mediaEntry :: "string \<Rightarrow> string list \<Rightarrow> ArticleEntityMapEntry" where
  "mediaEntry k ids =
     \<lparr>ekey = Some k,
      evalue = Some \<lparr>vtype = Some ''MEDIA'',
                     vdata = Some \<lparr>caption = None,
                                   mediaItems = Some (map (\<lambda>i. \<lparr>item_mediaId = Some i, item_media_id = None\<rparr>) ids),
                                   data_url = None, tweetId = None\<rparr>\<rparr>\<rparr>"

definition galleryArticle :: ArticleEntity where
  \<comment> \<open>Three media entities: one attached to the paragraph, one free, one the cover.\<close>
  "galleryArticle =
     \<lparr>title = Some ''T'', plain_text = None, preview_text = None,
      content_state =
        Some \<lparr>blocks = Some [\<lparr>btype = Some ''unstyled'', btext = Some ''x'',
                               entityRanges = Some [exampleRange 0 0 1]\<rparr>],
              entityMap = Some [(0, mediaEntry ''0'' [''m1''])]\<rparr>,
      cover_media = Some (imageEntity ''m3'' ''https://example.com/3.png''),
      media_entities = Some [imageEntity ''m1'' ''https://example.com/1.png'',
                             imageEntity ''m2'' ''https://example.com/2.png'',
                             imageEntity ''m3'' ''https://example.com/3.png'']\<rparr>"

definition emits :: "string set \<Rightarrow> string list \<times> string set \<Rightarrow> (string \<times> string) list \<Rightarrow> bool" where
  \<comment> \<open>The lines of \<open>acc\<close> are the image lines of the (alt text, URL) pairs, the URLs
      differ from each other and from those used before, and the used set has grown by
      exactly these URLs.\<close>
  "emits used acc pairs =
     (fst acc = map (\<lambda>p. imageLine (fst p) (snd p)) pairs \<and> distinct (map snd pairs) \<and>
      set (map snd pairs) \<inter> used = {} \<and> snd acc = used \<union> set (map snd pairs))"

definition galleryInv :: "string set \<Rightarrow> string option \<Rightarrow> string list \<times> string set \<Rightarrow> bool" where
  \<comment> \<open>What every round of the loop of \<open>collectMediaUrls\<close> keeps.\<close>
  "galleryInv used ex acc =
     (distinct (fst acc) \<and> set (fst acc) \<inter> used = {} \<and> used \<subseteq> snd acc \<and>
      set (fst acc) \<subseteq> snd acc \<and> ex \<notin> Some ` set (fst acc) \<and> [] \<notin> set (fst acc))"

fun hasBigInt :: "json \<Rightarrow> bool" where
  \<comment> \<open>A BigInt is the value, or is held by it at any depth.\<close>
  "hasBigInt (JBigInt i) = True"
| "hasBigInt (JArr xs) = (\<exists>x \<in> set xs. hasBigInt x)"
| "hasBigInt (JObj props) = (\<exists>kv \<in> set props. hasBigInt (snd kv))"
| "hasBigInt v = False"

definition nestedValue :: json where
  \<comment> \<open>An object whose \<open>title\<close> is no string and whose \<open>content_state\<close> is falsy, with
      nested arrays and objects, properties that are \<open>undefined\<close>, numbers in exponent
      form and without JSON text, and a string with characters that are escaped.\<close>
  "nestedValue =
     JObj [(''title'', JNum (intNumber 5)),
           (''content_state'', JNum (intNumber 0)),
           (''plain_text'', JNull),
           (''list'',
            JArr [JUndefined, JBool True, JBool False,
                  JStr (''q'' @ [CHR 0x22, CHR 0x5C, CHR 0x0A, CHR 0x09, CHR 0x01] @ ''z''),
                  JNum (Number False (Some ''1e+21'')), JNum (Number True None),
                  JNum (Number False (Some ''-0.5'')), JArr [], JObj [], JArr [JNull]]),
           (''skipped'', JUndefined),
           (''inner'', JObj [(''k'', JStr ''v''), (''u'', JUndefined)]),
           (''onlyUndefined'', JObj [(''u'', JUndefined)])]"

definition bigIntValue :: json where
  "bigIntValue = JObj [(''views'', JArr [JBigInt 10])]"

section \<open>Properties of the merge heuristic\<close>

lemma findIndex_None: "findIndex P xs = None \<longleftrightarrow> find P xs = None"
  by (induction xs) auto

lemma findIndex_Some:
  "findIndex P xs = Some i \<Longrightarrow> i < length xs \<and> find P xs = Some (xs ! i) \<and> P (xs ! i)"
  by (induction xs arbitrary: i) (auto split: if_splits)

lemma remove1_findIndex:
  "findIndex P xs = Some i \<Longrightarrow> take i xs @ drop (Suc i) xs = remove1 (xs ! i) xs"
proof (induction xs arbitrary: i)
  case Nil
  then show ?case by simp
next
  case (Cons x xs)
  show ?case
  proof (cases "P x")
    case True
    with Cons.prems show ?thesis by simp
  next
    case False
    with Cons.prems obtain j where j: "findIndex P xs = Some j" "i = Suc j"
      by auto
    from findIndex_Some[OF j(1)] have "P (xs ! j)" by simp
    with False have "x \<noteq> xs ! j" by auto
    with Cons.IH[OF j(1)] j(2) show ?thesis by simp
  qed
qed

lemma chooseLink_empty: "chooseLink k [] = None"
  by (simp add: chooseLink_def)

lemma chooseLink_linkIndex:
  assumes "pool \<noteq> []"
  shows "chooseLink k pool = Some (pool ! linkIndex k pool)"
    and "take (linkIndex k pool) pool @ drop (Suc (linkIndex k pool)) pool
         = remove1 (pool ! linkIndex k pool) pool"
    and "linkIndex k pool < length pool"
proof -
  obtain l ls where pool: "pool = l # ls"
    using assms by (cases pool) auto
  show "chooseLink k pool = Some (pool ! linkIndex k pool)"
  proof (cases "findIndex (\<lambda>l. l_key l > k) pool")
    case None
    then have "find (\<lambda>l. l_key l > k) pool = None" by (simp only: findIndex_None)
    with None pool show ?thesis by (simp add: chooseLink_def linkIndex_def)
  next
    case (Some i)
    from findIndex_Some[OF Some] Some show ?thesis
      by (simp add: chooseLink_def linkIndex_def)
  qed
  show "take (linkIndex k pool) pool @ drop (Suc (linkIndex k pool)) pool
         = remove1 (pool ! linkIndex k pool) pool"
  proof (cases "findIndex (\<lambda>l. l_key l > k) pool")
    case None
    with pool show ?thesis by (simp add: linkIndex_def)
  next
    case (Some i)
    from remove1_findIndex[OF Some] Some show ?thesis
      by (simp add: linkIndex_def)
  qed
  show "linkIndex k pool < length pool"
  proof (cases "findIndex (\<lambda>l. l_key l > k) pool")
    case None
    with pool show ?thesis by (simp add: linkIndex_def)
  next
    case (Some i)
    from findIndex_Some[OF Some] Some show ?thesis
      by (simp add: linkIndex_def)
  qed
qed

lemma pairingSpec_empty_pool: "pairingSpec ms [] = []"
  by (induction ms) (auto simp: chooseLink_empty)

lemma assignLinks_Cons:
  "pool \<noteq> [] \<Longrightarrow>
   assignLinks (media # rest) pool m =
     assignLinks rest (remove1 (pool ! linkIndex (m_key media) pool) pool)
       (recordPair m (media, pool ! linkIndex (m_key media) pool))"
  using chooseLink_linkIndex(2)[of pool "m_key media"]
  by (simp add: Let_def recordPair_def linkIndex_def)

lemma assignLinks_pairingSpec:
  "assignLinks ms pool m = foldl recordPair m (pairingSpec ms pool)"
proof (induction ms arbitrary: pool m)
  case Nil
  show ?case by simp
next
  case (Cons media rest)
  show ?case
  proof (cases "pool = []")
    case True
    then show ?thesis by (simp add: pairingSpec_empty_pool)
  next
    case False
    have "pairingSpec (media # rest) pool =
            (media, pool ! linkIndex (m_key media) pool)
            # pairingSpec rest (remove1 (pool ! linkIndex (m_key media) pool) pool)"
      by (simp add: chooseLink_linkIndex(1)[OF False])
    then show ?thesis
      by (simp only: assignLinks_Cons[OF False] Cons.IH foldl_Cons)
  qed
qed

lemma assignLinksPositional_Cons:
  "pool \<noteq> [] \<Longrightarrow>
   assignLinksPositional (media # rest) pool m =
     assignLinksPositional rest (remove1 (pool ! linkIndex (m_key media) pool) pool)
       (recordIndex m (media, pool ! linkIndex (m_key media) pool))"
  using chooseLink_linkIndex(2)[of pool "m_key media"]
  by (simp add: Let_def recordIndex_def linkIndex_def)

lemma assignLinksPositional_pairingSpec:
  "assignLinksPositional ms pool m = foldl recordIndex m (pairingSpec ms pool)"
proof (induction ms arbitrary: pool m)
  case Nil
  show ?case by simp
next
  case (Cons media rest)
  show ?case
  proof (cases "pool = []")
    case True
    then show ?thesis by (simp add: pairingSpec_empty_pool)
  next
    case False
    have "pairingSpec (media # rest) pool =
            (media, pool ! linkIndex (m_key media) pool)
            # pairingSpec rest (remove1 (pool ! linkIndex (m_key media) pool) pool)"
      by (simp add: chooseLink_linkIndex(1)[OF False])
    then show ?thesis
      by (simp only: assignLinksPositional_Cons[OF False] Cons.IH foldl_Cons)
  qed
qed

lemma map_fst_pairingSpec: "map fst (pairingSpec ms pool) = take (length pool) ms"
proof (induction ms arbitrary: pool)
  case Nil
  show ?case by simp
next
  case (Cons media rest)
  show ?case
  proof (cases "pool = []")
    case True
    then show ?thesis by (simp add: pairingSpec_empty_pool)
  next
    case False
    from chooseLink_linkIndex(3)[OF False, of "m_key media"]
    have mem: "pool ! linkIndex (m_key media) pool \<in> set pool" by simp
    have len: "length pool = Suc (length (remove1 (pool ! linkIndex (m_key media) pool) pool))"
      using mem False by (simp add: length_remove1)
    show ?thesis
      by (simp add: chooseLink_linkIndex(1)[OF False] Cons.IH) (simp add: len)
  qed
qed

lemma buildMediaLinkMap_foldl:
  "buildMediaLinkMap (Some em) =
     foldl recordPair Map.empty
       (pairingSpec (sort_key m_key (fst (collectEntries em)))
          (sort_key l_key (snd (collectEntries em))))"
  by (simp add: buildMediaLinkMap_def Let_def assignLinks_pairingSpec pairingSpec_empty_pool)

lemma buildMediaLinkMapPositional_foldl:
  "buildMediaLinkMapPositional (Some em) =
     foldl recordIndex Map.empty
       (pairingSpec (sort_key m_key (fst (collectEntries em)))
          (sort_key l_key (snd (collectEntries em))))"
  by (simp add: buildMediaLinkMapPositional_def Let_def assignLinksPositional_pairingSpec
        pairingSpec_empty_pool)

text \<open>
  C1, as the design states it, fails: in the example with the media keys 1, 3, 5 and the
  link keys 2, 4, the media entity with key 5 finds the pool empty and gets no URL at all;
  the loop does not wrap around to a link it has already used. Both copies of the renderer
  agree in this.
\<close>

theorem mergeExample_key5_unmapped:
  "buildMediaLinkMap (Some mergeExample) 5 = None \<and>
   buildMediaLinkMap (Some mergeExample) 5 \<noteq> Some ''https://example.com/2'' \<and>
   buildMediaLinkMapPositional (Some mergeExample) 5 = None"
  by code_simp

text \<open>
  C1, amended: for an entity map whose media entities have the logical keys 1, 3, 5 and
  whose link entities have the keys 2, 4, the map gives key 1 the URL of link 2 and key 3
  the URL of link 4, and it gives key 5 nothing. (The map also records each pair under the
  media entity's positional index; the statement takes these indices away from the keys
  it reads: the index of media 3 is not 1, and the indices of media 1 and 3 are not 5.)
  The copy without logical keys makes the same two pairs and records them under the
  positional indices of media 1 and media 3, and nothing else.
\<close>

theorem buildMediaLinkMap_keys_1_3_5:
  assumes media: "sort_key m_key (fst (collectEntries em)) =
                    [\<lparr>m_idx = i1, m_key = 1\<rparr>, \<lparr>m_idx = i3, m_key = 3\<rparr>, \<lparr>m_idx = i5, m_key = 5\<rparr>]"
      and links: "sort_key l_key (snd (collectEntries em)) =
                    [\<lparr>l_key = 2, l_url = u2\<rparr>, \<lparr>l_key = 4, l_url = u4\<rparr>]"
      and idx: "i3 \<noteq> 1" "i1 \<noteq> 5" "i3 \<noteq> 5"
  shows "buildMediaLinkMap (Some em) 1 = Some u2 \<and>
         buildMediaLinkMap (Some em) 3 = Some u4 \<and>
         buildMediaLinkMap (Some em) 5 = None \<and>
         buildMediaLinkMapPositional (Some em) = [i1 \<mapsto> u2, i3 \<mapsto> u4]"
proof -
  have "pairingSpec [\<lparr>m_idx = i1, m_key = 1\<rparr>, \<lparr>m_idx = i3, m_key = 3\<rparr>, \<lparr>m_idx = i5, m_key = 5\<rparr>]
          [\<lparr>l_key = 2, l_url = u2\<rparr>, \<lparr>l_key = 4, l_url = u4\<rparr>] =
        [(\<lparr>m_idx = i1, m_key = 1\<rparr>, \<lparr>l_key = 2, l_url = u2\<rparr>),
         (\<lparr>m_idx = i3, m_key = 3\<rparr>, \<lparr>l_key = 4, l_url = u4\<rparr>)]"
    by (simp add: chooseLink_def)
  then have "buildMediaLinkMap (Some em) =
               [i1 \<mapsto> u2, 1 \<mapsto> u2, i3 \<mapsto> u4, 3 \<mapsto> u4]"
        and "buildMediaLinkMapPositional (Some em) = [i1 \<mapsto> u2, i3 \<mapsto> u4]"
    by (simp_all add: buildMediaLinkMap_foldl buildMediaLinkMapPositional_foldl media links
          recordPair_def recordIndex_def)
  with idx show ?thesis by simp
qed

theorem buildMediaLinkMap_keys_1_3_5_witness:
  "buildMediaLinkMap (Some mergeExample) 1 = Some ''https://example.com/2'' \<and>
   buildMediaLinkMap (Some mergeExample) 3 = Some ''https://example.com/4'' \<and>
   buildMediaLinkMap (Some mergeExample) 5 = None \<and>
   buildMediaLinkMapPositional (Some mergeExample) =
     [0 \<mapsto> ''https://example.com/2'', 2 \<mapsto> ''https://example.com/4'']"
proof -
  have c: "collectEntries mergeExample =
             ([\<lparr>m_idx = 0, m_key = 1\<rparr>, \<lparr>m_idx = 2, m_key = 3\<rparr>, \<lparr>m_idx = 4, m_key = 5\<rparr>],
              [\<lparr>l_key = 2, l_url = ''https://example.com/2''\<rparr>,
               \<lparr>l_key = 4, l_url = ''https://example.com/4''\<rparr>])"
    by code_simp
  show ?thesis
    by (rule buildMediaLinkMap_keys_1_3_5[where ?i1.0 = 0 and ?i3.0 = 2 and ?i5.0 = 4])
       (simp_all add: c)
qed

text \<open>
  C4, as the design states it, fails for the copy without logical keys: there the pair of
  the media entity with key 1, which stands at index 0, is recorded under 0 and not
  under 1.
\<close>

theorem mergeExample_key_unrecorded_positional:
  "fst (collectEntries mergeExample) ! 0 = \<lparr>m_idx = 0, m_key = 1\<rparr> \<and>
   buildMediaLinkMapPositional (Some mergeExample) 0 = Some ''https://example.com/2'' \<and>
   buildMediaLinkMapPositional (Some mergeExample) 1 = None"
  by code_simp

text \<open>
  C4, amended: \<open>buildMediaLinkMap\<close> computes the pairing that the design describes. Both
  groups are sorted by ascending key; the media entities that get a link are the first
  ones in that order, as many as there are links, and every later one gets nothing;
  without link entities, and without an entity map, the map is empty. The map holds the
  URL of each pair under the media entity's positional index; the copy with referenced
  content holds it under the media entity's logical key as well, the copy in
  \<open>markdown.ts\<close> does not.
\<close>

theorem buildMediaLinkMap_pairing:
  "buildMediaLinkMap (Some em) =
     foldl recordPair Map.empty
       (pairingSpec (sort_key m_key (fst (collectEntries em)))
          (sort_key l_key (snd (collectEntries em)))) \<and>
   map fst (pairingSpec (sort_key m_key (fst (collectEntries em)))
              (sort_key l_key (snd (collectEntries em)))) =
     take (length (snd (collectEntries em))) (sort_key m_key (fst (collectEntries em))) \<and>
   sorted (map m_key (sort_key m_key (fst (collectEntries em)))) \<and>
   sorted (map l_key (sort_key l_key (snd (collectEntries em)))) \<and>
   (snd (collectEntries em) = [] \<longrightarrow> buildMediaLinkMap (Some em) = Map.empty) \<and>
   buildMediaLinkMap None = Map.empty \<and>
   buildMediaLinkMapPositional (Some em) =
     foldl recordIndex Map.empty
       (pairingSpec (sort_key m_key (fst (collectEntries em)))
          (sort_key l_key (snd (collectEntries em)))) \<and>
   (snd (collectEntries em) = [] \<longrightarrow> buildMediaLinkMapPositional (Some em) = Map.empty) \<and>
   buildMediaLinkMapPositional None = Map.empty"
proof -
  have "snd (collectEntries em) = [] \<longrightarrow> buildMediaLinkMap (Some em) = Map.empty"
    by (simp add: buildMediaLinkMap_def)
  moreover have "buildMediaLinkMap None = Map.empty"
    by (simp add: buildMediaLinkMap_def)
  moreover have "snd (collectEntries em) = [] \<longrightarrow>
                 buildMediaLinkMapPositional (Some em) = Map.empty"
    by (simp add: buildMediaLinkMapPositional_def)
  moreover have "buildMediaLinkMapPositional None = Map.empty"
    by (simp add: buildMediaLinkMapPositional_def)
  ultimately show ?thesis
    using buildMediaLinkMap_foldl[of em] buildMediaLinkMapPositional_foldl[of em]
          map_fst_pairingSpec[of "sort_key m_key (fst (collectEntries em))"
            "sort_key l_key (snd (collectEntries em))"]
    by simp
qed

theorem buildMediaLinkMap_pairing_witness:
  "snd (collectEntries mediaOnlyExample) = [] \<and>
   buildMediaLinkMap (Some mediaOnlyExample) = Map.empty \<and>
   map fst (pairingSpec (sort_key m_key (fst (collectEntries mergeExample)))
              (sort_key l_key (snd (collectEntries mergeExample)))) =
     [\<lparr>m_idx = 0, m_key = 1\<rparr>, \<lparr>m_idx = 2, m_key = 3\<rparr>]"
proof -
  have c: "snd (collectEntries mediaOnlyExample) = []"
    by code_simp
  have d: "collectEntries mergeExample =
             ([\<lparr>m_idx = 0, m_key = 1\<rparr>, \<lparr>m_idx = 2, m_key = 3\<rparr>, \<lparr>m_idx = 4, m_key = 5\<rparr>],
              [\<lparr>l_key = 2, l_url = ''https://example.com/2''\<rparr>,
               \<lparr>l_key = 4, l_url = ''https://example.com/4''\<rparr>])"
    by code_simp
  from buildMediaLinkMap_pairing[of mediaOnlyExample] c
  have "buildMediaLinkMap (Some mediaOnlyExample) = Map.empty" by blast
  moreover from buildMediaLinkMap_pairing[of mergeExample]
  have "map fst (pairingSpec (sort_key m_key (fst (collectEntries mergeExample)))
              (sort_key l_key (snd (collectEntries mergeExample)))) =
     take (length (snd (collectEntries mergeExample)))
       (sort_key m_key (fst (collectEntries mergeExample)))" by blast
  ultimately show ?thesis using c by (simp add: d)
qed

section \<open>Properties of entity resolution\<close>

lemma byLogicalKey_lookupStep:
  "byLogicalKey (lookupStep lk ie) k =
     (case byLogicalKey lk k of
        Some e \<Rightarrow> Some e
      | None \<Rightarrow> if hasLogicalKey k ie then Some (snd ie) else None)"
  by (auto simp: lookupStep_def Let_def hasLogicalKey_def split: option.splits)

lemma byLogicalKey_foldl:
  "byLogicalKey (foldl lookupStep lk em) k =
     (case byLogicalKey lk k of
        Some e \<Rightarrow> Some e
      | None \<Rightarrow> map_option snd (find (hasLogicalKey k) em))"
proof (induction em arbitrary: lk)
  case Nil
  show ?case by (simp split: option.splits)
next
  case (Cons ie em)
  show ?case
    by (simp add: Cons.IH byLogicalKey_lookupStep split: option.splits)
qed

lemma byIndex_lookupStep:
  "byIndex (lookupStep lk ie) k = (if hasIndex k ie then Some (snd ie) else byIndex lk k)"
  by (auto simp: lookupStep_def Let_def hasIndex_def split: option.splits)

lemma find_app:
  "find P (xs @ ys) = (case find P xs of Some x \<Rightarrow> Some x | None \<Rightarrow> find P ys)"
  by (induction xs) auto

lemma byIndex_foldl:
  "byIndex (foldl lookupStep lk em) k =
     (case find (hasIndex k) (rev em) of
        Some ie \<Rightarrow> Some (snd ie)
      | None \<Rightarrow> byIndex lk k)"
proof (induction em arbitrary: lk)
  case Nil
  show ?case by simp
next
  case (Cons ie em)
  show ?case
    by (simp add: Cons.IH byIndex_lookupStep find_app split: option.splits)
qed

lemma find_first:
  "\<forall>x \<in> set xs. \<not> P x \<Longrightarrow> P y \<Longrightarrow> find P (xs @ y # ys) = Some y"
  by (induction xs) auto

text \<open>
  C5: resolving a key tries the lookup by logical key, then the lookup by positional index,
  then the property of the map whose name is the text of the key, and it reports not-found
  only when all three fail. In the lookup built from an entity map, the entry under a
  logical key is the first entry, in the order of the map's enumeration, whose key string
  parses to that Number, so that of two entries that declare the same logical key the
  first is returned and never a later one; the entry under a positional index is the one
  stored under that index.
\<close>

theorem resolveEntityEntry_order:
  "resolveEntityEntry (Some k) (Some em) lookup =
     (case byLogicalKey lookup k of
        Some e \<Rightarrow> Some e
      | None \<Rightarrow>
          (case byIndex lookup k of
             Some e \<Rightarrow> Some e
           | None \<Rightarrow> if k < 0 \<or> 10 ^ 21 \<le> k then None else map_of em (nat k))) \<and>
   (resolveEntityEntry (Some k) (Some em) lookup = None \<longleftrightarrow>
      byLogicalKey lookup k = None \<and> byIndex lookup k = None \<and>
      (k < 0 \<or> 10 ^ 21 \<le> k \<or> nat k \<notin> fst ` set em)) \<and>
   resolveEntityEntry (Some k) None lookup =
     (case byLogicalKey lookup k of Some e \<Rightarrow> Some e | None \<Rightarrow> byIndex lookup k) \<and>
   resolveEntityEntry None (Some em) lookup = None \<and>
   byLogicalKey (buildEntityLookup (Some em)) k = map_option snd (find (hasLogicalKey k) em) \<and>
   byIndex (buildEntityLookup (Some em)) k = map_option snd (find (hasIndex k) (rev em)) \<and>
   (em = xs @ (i, e1) # rest \<and> logicalKeyOf e1 = Some k \<and> isFiniteNumber k \<and>
    (\<forall>ie \<in> set xs. logicalKeyOf (snd ie) \<noteq> Some k) \<longrightarrow>
      resolveEntityEntry (Some k) (Some em) (buildEntityLookup (Some em)) = Some e1) \<and>
   buildEntityLookup None = \<lparr>byIndex = Map.empty, byLogicalKey = Map.empty\<rparr>"
proof -
  have a: "resolveEntityEntry (Some k) (Some em) lookup =
     (case byLogicalKey lookup k of
        Some e \<Rightarrow> Some e
      | None \<Rightarrow>
          (case byIndex lookup k of
             Some e \<Rightarrow> Some e
           | None \<Rightarrow> if k < 0 \<or> 10 ^ 21 \<le> k then None else map_of em (nat k)))"
    by (simp add: resolveEntityEntry_def rawEntry_def split: option.splits)
  have b: "resolveEntityEntry (Some k) (Some em) lookup = None \<longleftrightarrow>
      byLogicalKey lookup k = None \<and> byIndex lookup k = None \<and>
      (k < 0 \<or> 10 ^ 21 \<le> k \<or> nat k \<notin> fst ` set em)"
    unfolding a by (auto simp: map_of_eq_None_iff split: option.splits)
  have c: "resolveEntityEntry (Some k) None lookup =
     (case byLogicalKey lookup k of Some e \<Rightarrow> Some e | None \<Rightarrow> byIndex lookup k)"
    by (simp add: resolveEntityEntry_def split: option.splits)
  have d: "resolveEntityEntry None (Some em) lookup = None"
    by (simp add: resolveEntityEntry_def)
  have e: "byLogicalKey (buildEntityLookup (Some em)) k =
             map_option snd (find (hasLogicalKey k) em)"
    by (simp add: buildEntityLookup_def byLogicalKey_foldl)
  have f: "byIndex (buildEntityLookup (Some em)) k = map_option snd (find (hasIndex k) (rev em))"
    by (simp add: buildEntityLookup_def byIndex_foldl split: option.splits)
  have g: "resolveEntityEntry (Some k) (Some em) (buildEntityLookup (Some em)) = Some e1"
    if "em = xs @ (i, e1) # rest" "logicalKeyOf e1 = Some k" "isFiniteNumber k"
       "\<forall>ie \<in> set xs. logicalKeyOf (snd ie) \<noteq> Some k"
  proof -
    have "find (hasLogicalKey k) em = Some (i, e1)"
      unfolding that(1) by (rule find_first) (use that in \<open>auto simp: hasLogicalKey_def\<close>)
    then show ?thesis by (simp add: resolveEntityEntry_def e)
  qed
  have h: "buildEntityLookup None = \<lparr>byIndex = Map.empty, byLogicalKey = Map.empty\<rparr>"
    by (simp add: buildEntityLookup_def)
  from a b c d e f g h show ?thesis by blast
qed

theorem resolveEntityEntry_order_witness:
  "resolveEntityEntry (Some 7) (Some duplicateKeyExample)
     (buildEntityLookup (Some duplicateKeyExample)) =
     Some (exampleEntry '' 7'' ''LINK'' (Some ''https://example.com/first'')) \<and>
   resolveEntityEntry (Some 9007199254740992) (Some roundedKeyExample)
     (buildEntityLookup (Some roundedKeyExample)) =
     Some (exampleEntry ''9007199254740993'' ''LINK'' (Some ''https://example.com/odd'')) \<and>
   resolveEntityEntry (Some (- 3)) (Some duplicateKeyExample)
     (buildEntityLookup (Some duplicateKeyExample)) =
     Some (exampleEntry ''-3'' ''LINK'' (Some ''https://example.com/zero'')) \<and>
   resolveEntityEntry (Some 5) (Some duplicateKeyExample)
     (buildEntityLookup (Some duplicateKeyExample)) =
     Some (exampleEntry ''px7'' ''LINK'' (Some ''https://example.com/last'')) \<and>
   resolveEntityEntry (Some 2) (Some duplicateKeyExample) emptyLookup =
     Some (exampleEntry ''7px'' ''LINK'' (Some ''https://example.com/second'')) \<and>
   resolveEntityEntry (Some 4) (Some duplicateKeyExample)
     (buildEntityLookup (Some duplicateKeyExample)) = None"
proof -
  let ?zero = "exampleEntry ''-3'' ''LINK'' (Some ''https://example.com/zero'')"
  let ?first = "exampleEntry '' 7'' ''LINK'' (Some ''https://example.com/first'')"
  let ?second = "exampleEntry ''7px'' ''LINK'' (Some ''https://example.com/second'')"
  let ?third = "exampleEntry ''+7'' ''LINK'' (Some ''https://example.com/third'')"
  let ?last = "exampleEntry ''px7'' ''LINK'' (Some ''https://example.com/last'')"
  let ?odd = "exampleEntry ''9007199254740993'' ''LINK'' (Some ''https://example.com/odd'')"
  let ?even = "exampleEntry ''9007199254740992'' ''LINK'' (Some ''https://example.com/even'')"
  let ?dup = "buildEntityLookup (Some duplicateKeyExample)"
  have keys: "logicalKeyOf ?zero = Some (- 3)" "logicalKeyOf ?first = Some 7"
             "logicalKeyOf ?second = Some 7" "logicalKeyOf ?third = Some 7"
             "logicalKeyOf ?last = None"
             "logicalKeyOf ?odd = Some 9007199254740992"
             "logicalKeyOf ?even = Some 9007199254740992"
    by code_simp+
  have fin: "isFiniteNumber 7" "isFiniteNumber 9007199254740992" "isFiniteNumber (- 3)"
    by code_simp+
  have shape: "duplicateKeyExample = [(0, ?zero)] @ (1, ?first) # [(2, ?second), (3, ?third), (5, ?last)]"
              "duplicateKeyExample = [] @ (0, ?zero) # [(1, ?first), (2, ?second), (3, ?third), (5, ?last)]"
              "roundedKeyExample = [] @ (0, ?odd) # [(1, ?even)]"
    by (simp_all add: duplicateKeyExample_def roundedKeyExample_def)
  have 1: "resolveEntityEntry (Some 7) (Some duplicateKeyExample) ?dup = Some ?first"
    using resolveEntityEntry_order[of 7 duplicateKeyExample emptyLookup "[(0, ?zero)]" 1 ?first
            "[(2, ?second), (3, ?third), (5, ?last)]", THEN conjunct2, THEN conjunct2, THEN conjunct2, THEN conjunct2, THEN conjunct2,
            THEN conjunct2, THEN conjunct1]
          shape(1) keys fin
    by simp
  have 2: "resolveEntityEntry (Some 9007199254740992) (Some roundedKeyExample)
             (buildEntityLookup (Some roundedKeyExample)) = Some ?odd"
    using resolveEntityEntry_order[of 9007199254740992 roundedKeyExample emptyLookup "[]" 0 ?odd
            "[(1, ?even)]", THEN conjunct2, THEN conjunct2, THEN conjunct2, THEN conjunct2, THEN conjunct2,
            THEN conjunct2, THEN conjunct1]
          shape(3) keys fin
    by simp
  have 3: "resolveEntityEntry (Some (- 3)) (Some duplicateKeyExample) ?dup = Some ?zero"
    using resolveEntityEntry_order[of "- 3" duplicateKeyExample emptyLookup "[]" 0 ?zero
            "[(1, ?first), (2, ?second), (3, ?third), (5, ?last)]", THEN conjunct2, THEN conjunct2, THEN conjunct2, THEN conjunct2, THEN conjunct2,
            THEN conjunct2, THEN conjunct1]
          shape(2) keys fin
    by simp
  have l5: "find (hasLogicalKey 5) duplicateKeyExample = None"
           "find (hasIndex 5) (rev duplicateKeyExample) = Some (5, ?last)"
           "find (hasLogicalKey 4) duplicateKeyExample = None"
           "find (hasIndex 4) (rev duplicateKeyExample) = None"
           "map_of duplicateKeyExample 4 = None"
           "map_of duplicateKeyExample 2 = Some ?second"
    by code_simp+
  note t5 = resolveEntityEntry_order[of 5 duplicateKeyExample ?dup]
  have 4: "resolveEntityEntry (Some 5) (Some duplicateKeyExample) ?dup = Some ?last"
    by (simp add: t5[THEN conjunct1]
          t5[THEN conjunct2, THEN conjunct2, THEN conjunct2, THEN conjunct2, THEN conjunct1]
          t5[THEN conjunct2, THEN conjunct2, THEN conjunct2, THEN conjunct2, THEN conjunct2,
             THEN conjunct1] l5)
  note t2 = resolveEntityEntry_order[of 2 duplicateKeyExample emptyLookup]
  have 5: "resolveEntityEntry (Some 2) (Some duplicateKeyExample) emptyLookup = Some ?second"
    using t2[THEN conjunct1] by (simp add: emptyLookup_def l5)
  note t4 = resolveEntityEntry_order[of 4 duplicateKeyExample ?dup]
  have 6: "resolveEntityEntry (Some 4) (Some duplicateKeyExample) ?dup = None"
    by (simp add: t4[THEN conjunct1] l5
          resolveEntityEntry_order[of 4 duplicateKeyExample ?dup, THEN conjunct2, THEN conjunct2,
            THEN conjunct2, THEN conjunct2, THEN conjunct1]
          resolveEntityEntry_order[of 4 duplicateKeyExample ?dup, THEN conjunct2, THEN conjunct2,
            THEN conjunct2, THEN conjunct2, THEN conjunct2, THEN conjunct1])
  from 1 2 3 4 5 6 show ?thesis by blast
qed

section \<open>Properties of the inline range renderer\<close>

text \<open>
  C3, as the design states it, fails: two ranges at the same offset are applied in the order
  of the input (the sort compares offsets only and is stable), so the two orders of such a
  pair, both of them in descending-offset order, give different strings.
\<close>

theorem renderInlineLinks_ties_keep_input_order:
  "mset [exampleRange 0 0 1, exampleRange 1 0 1] = mset [exampleRange 1 0 1, exampleRange 0 0 1] \<and>
   renderInlineLinks ''ab'' [exampleRange 0 0 1, exampleRange 1 0 1] (Some twoLinksExample)
     (buildEntityLookup (Some twoLinksExample)) Map.empty
   = ''[[](https://example.com/b)a](https://example.com/a)b'' \<and>
   renderInlineLinks ''ab'' [exampleRange 1 0 1, exampleRange 0 0 1] (Some twoLinksExample)
     (buildEntityLookup (Some twoLinksExample)) Map.empty
   = ''[[](https://example.com/a)a](https://example.com/b)b'' \<and>
   renderInlineLinksPositional ''ab'' [exampleRange 0 0 1, exampleRange 1 0 1]
     (Some twoLinksExample) Map.empty
   = ''[[](https://example.com/b)a](https://example.com/a)b'' \<and>
   renderInlineLinksPositional ''ab'' [exampleRange 1 0 1, exampleRange 0 0 1]
     (Some twoLinksExample) Map.empty
   = ''[[](https://example.com/a)a](https://example.com/b)b''"
  apply (intro conjI)
      apply (simp add: add.commute)
     apply code_simp
    apply code_simp
   apply code_simp
  apply code_simp
  done

lemma sort_valid_unique:
  assumes perm: "mset rs' = mset rs"
      and dist: "distinct (map offsetOr0 (filter validRange rs))"
  shows "sort_key (\<lambda>r. - offsetOr0 r) (filter validRange rs') =
         sort_key (\<lambda>r. - offsetOr0 r) (filter validRange rs)"
proof (rule sort_key_inj_key_eq)
  from perm have m: "mset (filter validRange rs') = mset (filter validRange rs)"
    by (simp add: mset_filter)
  then show "mset (filter validRange rs') =
             mset (sort_key (\<lambda>r. - offsetOr0 r) (filter validRange rs))"
    by simp
  from m have "set (filter validRange rs') = set (filter validRange rs)"
    by (rule mset_eq_setD)
  moreover from dist have "inj_on offsetOr0 (set (filter validRange rs))"
    by (simp only: distinct_map)
  ultimately have "inj_on offsetOr0 (set (filter validRange rs'))" by simp
  then show "inj_on (\<lambda>r. - offsetOr0 r) (set (filter validRange rs'))"
    by (auto simp: inj_on_def)
  show "sorted (map (\<lambda>r. - offsetOr0 r) (sort_key (\<lambda>r. - offsetOr0 r) (filter validRange rs)))"
    by simp
qed

lemma renderInlineLinks_perm:
  assumes perm: "mset rs' = mset rs"
      and dist: "distinct (map offsetOr0 (filter validRange rs))"
  shows "renderInlineLinks text rs' em lk mlm = renderInlineLinks text rs em lk mlm"
proof -
  from perm have e: "rs' = [] \<longleftrightarrow> rs = []"
    by (metis mset_zero_iff)
  from perm have "mset (filter validRange rs') = mset (filter validRange rs)"
    by (simp add: mset_filter)
  then have v: "filter validRange rs' = [] \<longleftrightarrow> filter validRange rs = []"
    by (metis mset_zero_iff)
  show ?thesis
    unfolding renderInlineLinks_def Let_def sort_valid_unique[OF perm dist] e v ..
qed

lemma renderInlineLinksPositional_perm:
  assumes perm: "mset rs' = mset rs"
      and dist: "distinct (map offsetOr0 (filter validRange rs))"
  shows "renderInlineLinksPositional text rs' em mlm = renderInlineLinksPositional text rs em mlm"
proof -
  from perm have e: "rs' = [] \<longleftrightarrow> rs = []"
    by (metis mset_zero_iff)
  from perm have "mset (filter validRange rs') = mset (filter validRange rs)"
    by (simp add: mset_filter)
  then have v: "filter validRange rs' = [] \<longleftrightarrow> filter validRange rs = []"
    by (metis mset_zero_iff)
  show ?thesis
    unfolding renderInlineLinksPositional_def Let_def sort_valid_unique[OF perm dist] e v ..
qed

text \<open>
  C3, amended: when the valid ranges of a block (numeric key, numeric offset, positive
  length) have pairwise different offsets, \<open>renderInlineLinks\<close> returns the same string for
  every permutation of the list of ranges, the one in descending-offset order among them.
  The same holds for the copy without logical keys.
\<close>

theorem renderInlineLinks_order_independent:
  assumes perm: "mset rs' = mset rs"
      and dist: "distinct (map offsetOr0 (filter validRange rs))"
  shows "renderInlineLinks text rs' em lk mlm = renderInlineLinks text rs em lk mlm \<and>
         renderInlineLinks text rs' em lk mlm =
           renderInlineLinks text (sort_key (\<lambda>r. - offsetOr0 r) rs) em lk mlm \<and>
         renderInlineLinksPositional text rs' em mlm =
           renderInlineLinksPositional text rs em mlm \<and>
         renderInlineLinksPositional text rs' em mlm =
           renderInlineLinksPositional text (sort_key (\<lambda>r. - offsetOr0 r) rs) em mlm"
proof -
  have "mset (sort_key (\<lambda>r. - offsetOr0 r) rs) = mset rs" by simp
  from renderInlineLinks_perm[OF this dist] renderInlineLinks_perm[OF perm dist]
       renderInlineLinksPositional_perm[OF this dist]
       renderInlineLinksPositional_perm[OF perm dist]
  show ?thesis by simp
qed

theorem renderInlineLinks_order_independent_witness:
  "renderInlineLinks ''ab'' [exampleRange 0 0 1, exampleRange 1 1 1] (Some twoLinksExample)
     (buildEntityLookup (Some twoLinksExample)) Map.empty =
   renderInlineLinks ''ab'' [exampleRange 1 1 1, exampleRange 0 0 1] (Some twoLinksExample)
     (buildEntityLookup (Some twoLinksExample)) Map.empty \<and>
   renderInlineLinks ''ab'' [exampleRange 1 1 1, exampleRange 0 0 1] (Some twoLinksExample)
     (buildEntityLookup (Some twoLinksExample)) Map.empty =
   ''[a](https://example.com/a)[b](https://example.com/b)''"
proof -
  have p: "mset [exampleRange 0 0 1, exampleRange 1 1 1] =
           mset [exampleRange 1 1 1, exampleRange 0 0 1]"
    by (simp add: add.commute)
  have d: "distinct (map offsetOr0 (filter validRange [exampleRange 1 1 1, exampleRange 0 0 1]))"
    by (simp add: validRange_def offsetOr0_def exampleRange_def)
  have v: "renderInlineLinks ''ab'' [exampleRange 1 1 1, exampleRange 0 0 1]
             (Some twoLinksExample) (buildEntityLookup (Some twoLinksExample)) Map.empty =
           ''[a](https://example.com/a)[b](https://example.com/b)''"
    by code_simp
  from renderInlineLinks_order_independent[OF p d] v show ?thesis by simp
qed

lemma slice_beyond:
  assumes "int (length s) \<le> off" "0 < len"
  shows "slice s 0 off = s" "slice s off (off + len) = []" "sliceFrom s (off + len) = []"
  using assms by (simp_all add: slice_def sliceFrom_def relIndex_def Let_def)

text \<open>
  C10: \<open>renderInlineLinks\<close> is a total function of the text and the ranges. A valid range
  whose offset is at or beyond the end of the text, and whose entity has a URL, is not
  skipped: the slice it wraps is empty, and the link \<open>[](url)\<close> is appended to the text.
  The same holds for the copy without logical keys.
\<close>

theorem renderInlineLinks_offset_beyond_end:
  assumes r: "rkey r = Some k" "roffset r = Some off" "rlength r = Some len"
      and len: "0 < len"
      and off: "int (length text) \<le> off"
      and u: "u \<noteq> []"
  shows "slice text off (off + len) = [] \<and>
         (rangeUrl (Some em) lk mlm k = Some u \<longrightarrow>
            applyRange (Some em) lk mlm text r = text @ ''[]('' @ u @ '')'' \<and>
            renderInlineLinks text [r] (Some em) lk mlm = text @ ''[]('' @ u @ '')'') \<and>
         (rangeUrlPositional em mlm k = Some u \<longrightarrow>
            applyRangePositional em mlm text r = text @ ''[]('' @ u @ '')'' \<and>
            renderInlineLinksPositional text [r] (Some em) mlm = text @ ''[]('' @ u @ '')'')"
proof -
  have v: "validRange r" using r len by (simp add: validRange_def)
  have a: "applyRange (Some em) lk mlm text r = text @ ''[]('' @ u @ '')''"
    if "rangeUrl (Some em) lk mlm k = Some u"
    using r u that by (simp add: applyRange_def slice_beyond[OF off len])
  have b: "renderInlineLinks text [r] (Some em) lk mlm = applyRange (Some em) lk mlm text r"
    using v by (simp add: renderInlineLinks_def)
  have c: "applyRangePositional em mlm text r = text @ ''[]('' @ u @ '')''"
    if "rangeUrlPositional em mlm k = Some u"
    using r u that by (simp add: applyRangePositional_def slice_beyond[OF off len])
  have d: "renderInlineLinksPositional text [r] (Some em) mlm = applyRangePositional em mlm text r"
    using v by (simp add: renderInlineLinksPositional_def)
  from a b c d slice_beyond(2)[OF off len] show ?thesis by simp
qed

theorem renderInlineLinks_offset_beyond_end_witness:
  "renderInlineLinks ''ab'' [exampleRange 0 7 1] (Some twoLinksExample)
     (buildEntityLookup (Some twoLinksExample)) Map.empty = ''ab[](https://example.com/a)'' \<and>
   renderInlineLinksPositional ''ab'' [exampleRange 0 7 1] (Some twoLinksExample) Map.empty =
     ''ab[](https://example.com/a)''"
proof -
  have u: "rangeUrl (Some twoLinksExample) (buildEntityLookup (Some twoLinksExample)) Map.empty 0
           = Some ''https://example.com/a''"
    by code_simp
  have w: "rangeUrlPositional twoLinksExample Map.empty 0 = Some ''https://example.com/a''"
    by code_simp
  from renderInlineLinks_offset_beyond_end[of "exampleRange 0 7 1" 0 7 1 "''ab''"
         "''https://example.com/a''" twoLinksExample
         "buildEntityLookup (Some twoLinksExample)" Map.empty] u w
  show ?thesis by (simp add: exampleRange_def)
qed

section \<open>Properties of the block stream renderer\<close>



section \<open>Properties of the referenced-content resolver\<close>

lemma resolve_fst:
  "fst (foldl (resolveStep f) acc ids) i =
     (if i \<in> set ids then Some (resolvedInfo f i) else fst acc i)"
  by (induction ids arbitrary: acc)
     (auto simp: resolveStep_def resolvedInfo_def split: sum.splits)

lemma resolve_snd:
  "snd (foldl (resolveStep f) acc ids) =
     snd acc @
     concat (map (\<lambda>i. case f i of
                          Inl err \<Rightarrow> [''[x-to-markdown] Failed to fetch referenced tweet '' @ i @ '': '' @ err]
                        | Inr tweet \<Rightarrow> []) ids)"
  by (induction ids arbitrary: acc)
     (auto simp: resolveStep_def failureMessage_def split: sum.splits)

lemma tweetIdStep_distinct: "distinct ids \<Longrightarrow> distinct (foldl tweetIdStep ids es)"
  by (induction es arbitrary: ids) (auto simp: tweetIdStep_def split: option.splits)

text \<open>
  C7: for every referenced ID, the map that \<open>resolveReferencedTweetsFromArticle\<close> returns
  holds a record, and for no other string. Where the lookup of the ID fails with the
  message \<open>err\<close>, the record holds the ID and the URL \<open>https://x.com/i/web/status/<id>\<close>
  only, with no author name, no handle and no text; where it succeeds, the record is made
  of the result alone: its ID is the result's \<open>rest_id\<close> if that is a string that is not
  empty and the referenced ID otherwise, its author name and handle are the result's, the
  legacy ones standing in for missing ones, its URL is \<open>https://x.com/<handle>/status/<id>\<close>
  with a handle that is not empty and \<open>https://x.com/i/web/status/<id>\<close> without, and its
  text is the first of note text, legacy full text and legacy text that is neither
  \<open>undefined\<close> nor \<open>null\<close>, if that is a string. The messages passed to \<open>log\<close> are, in the
  order of the referenced IDs, one line
  \<open>[x-to-markdown] Failed to fetch referenced tweet <id>: <err>\<close> for each ID whose lookup
  fails, and nothing else. The function has no other outcome than this map and these
  messages: a failed lookup ends neither the loop nor the call.
\<close>

theorem resolveReferencedTweets_failure_isolated:
  "(\<forall>i \<in> set (extractReferencedTweetIds asArticle article).
      (\<forall>err. fetchXTweet i = Inl err \<longrightarrow>
         fst (resolveReferencedTweetsFromArticle asArticle fetchXTweet article) i =
           Some \<lparr>info_id = i, info_url = ''https://x.com/i/web/status/'' @ i, authorName = None,
                 authorUsername = None, info_text = None\<rparr>) \<and>
      (\<forall>tweet. fetchXTweet i = Inr tweet \<longrightarrow>
         (\<exists>info.
            fst (resolveReferencedTweetsFromArticle asArticle fetchXTweet article) i = Some info \<and>
            info_id info =
              (case rest_id tweet of None \<Rightarrow> i | Some r \<Rightarrow> if r = [] then i else r) \<and>
            authorName info =
              (case core_name tweet of Some n \<Rightarrow> Some n | None \<Rightarrow> legacy_name tweet) \<and>
            authorUsername info =
              (case core_screen_name tweet of Some u \<Rightarrow> Some u
               | None \<Rightarrow> legacy_screen_name tweet) \<and>
            info_url info =
              (case authorUsername info of
                 None \<Rightarrow> ''https://x.com/i/web/status/'' @ info_id info
               | Some u \<Rightarrow>
                   if u = [] then ''https://x.com/i/web/status/'' @ info_id info
                   else ''https://x.com/'' @ u @ ''/status/'' @ info_id info) \<and>
            info_text info =
              (case note_tweet_text tweet of
                 Text s \<Rightarrow> Some s
               | NonString \<Rightarrow> None
               | Nullish \<Rightarrow>
                   (case legacy_full_text tweet of
                      Text s \<Rightarrow> Some s
                    | NonString \<Rightarrow> None
                    | Nullish \<Rightarrow>
                        (case legacy_text tweet of Text s \<Rightarrow> Some s | _ \<Rightarrow> None)))))) \<and>
   dom (fst (resolveReferencedTweetsFromArticle asArticle fetchXTweet article)) =
     set (extractReferencedTweetIds asArticle article) \<and>
   snd (resolveReferencedTweetsFromArticle asArticle fetchXTweet article) =
     concat (map (\<lambda>i. case fetchXTweet i of
                          Inl err \<Rightarrow> [''[x-to-markdown] Failed to fetch referenced tweet '' @ i @ '': '' @ err]
                        | Inr tweet \<Rightarrow> [])
               (extractReferencedTweetIds asArticle article)) \<and>
   distinct (extractReferencedTweetIds asArticle article)"
proof -
  have d: "distinct (extractReferencedTweetIds asArticle article)"
    by (simp add: extractReferencedTweetIds_def tweetIdStep_distinct split: option.splits)
  have dm: "dom (fst (resolveReferencedTweetsFromArticle asArticle fetchXTweet article)) =
     set (extractReferencedTweetIds asArticle article)"
    by (auto simp: resolveReferencedTweetsFromArticle_def resolve_fst dom_def)
  have lg: "snd (resolveReferencedTweetsFromArticle asArticle fetchXTweet article) =
     concat (map (\<lambda>i. case fetchXTweet i of
                          Inl err \<Rightarrow> [''[x-to-markdown] Failed to fetch referenced tweet '' @ i @ '': '' @ err]
                        | Inr tweet \<Rightarrow> [])
               (extractReferencedTweetIds asArticle article))"
    by (simp add: resolveReferencedTweetsFromArticle_def resolve_snd)
  have ex: "info_id (extractReferencedTweetInfo tweet i) =
              (case rest_id tweet of None \<Rightarrow> i | Some r \<Rightarrow> if r = [] then i else r) \<and>
            authorName (extractReferencedTweetInfo tweet i) =
              (case core_name tweet of Some n \<Rightarrow> Some n | None \<Rightarrow> legacy_name tweet) \<and>
            authorUsername (extractReferencedTweetInfo tweet i) =
              (case core_screen_name tweet of Some u \<Rightarrow> Some u
               | None \<Rightarrow> legacy_screen_name tweet) \<and>
            info_url (extractReferencedTweetInfo tweet i) =
              (case authorUsername (extractReferencedTweetInfo tweet i) of
                 None \<Rightarrow> ''https://x.com/i/web/status/'' @ info_id (extractReferencedTweetInfo tweet i)
               | Some u \<Rightarrow>
                   if u = [] then ''https://x.com/i/web/status/'' @ info_id (extractReferencedTweetInfo tweet i)
                   else ''https://x.com/'' @ u @ ''/status/'' @ info_id (extractReferencedTweetInfo tweet i)) \<and>
            info_text (extractReferencedTweetInfo tweet i) =
              (case note_tweet_text tweet of
                 Text s \<Rightarrow> Some s
               | NonString \<Rightarrow> None
               | Nullish \<Rightarrow>
                   (case legacy_full_text tweet of
                      Text s \<Rightarrow> Some s
                    | NonString \<Rightarrow> None
                    | Nullish \<Rightarrow>
                        (case legacy_text tweet of Text s \<Rightarrow> Some s | _ \<Rightarrow> None)))" for tweet i
    by (simp add: extractReferencedTweetInfo_def orElse_def truthy_def Let_def coalesce_def
          stringOf_def split: option.splits textField.splits)
  have "\<forall>i \<in> set (extractReferencedTweetIds asArticle article).
      (\<forall>err. fetchXTweet i = Inl err \<longrightarrow>
         fst (resolveReferencedTweetsFromArticle asArticle fetchXTweet article) i =
           Some \<lparr>info_id = i, info_url = ''https://x.com/i/web/status/'' @ i, authorName = None,
                 authorUsername = None, info_text = None\<rparr>) \<and>
      (\<forall>tweet. fetchXTweet i = Inr tweet \<longrightarrow>
         fst (resolveReferencedTweetsFromArticle asArticle fetchXTweet article) i =
           Some (extractReferencedTweetInfo tweet i))"
    by (auto simp: resolveReferencedTweetsFromArticle_def resolve_fst resolvedInfo_def
          degradedInfo_def)
  with ex d dm lg show ?thesis
    by (intro conjI ballI allI impI) (blast | simp)+
qed

theorem resolveReferencedTweets_failure_isolated_witness:
  "extractReferencedTweetIds (\<lambda>_. quotingArticle) quotingJson =
     [''999'', ''1000'', ''998'', ''1001''] \<and>
   snd (resolveReferencedTweetsFromArticle (\<lambda>_. quotingArticle) exampleFetch quotingJson) =
     [''[x-to-markdown] Failed to fetch referenced tweet 999: not found'',
      ''[x-to-markdown] Failed to fetch referenced tweet 998: rate limited''] \<and>
   fst (resolveReferencedTweetsFromArticle (\<lambda>_. quotingArticle) exampleFetch quotingJson) ''999'' =
     Some \<lparr>info_id = ''999'', info_url = ''https://x.com/i/web/status/999'', authorName = None,
           authorUsername = None, info_text = None\<rparr> \<and>
   fst (resolveReferencedTweetsFromArticle (\<lambda>_. quotingArticle) exampleFetch quotingJson) ''1000'' =
     Some \<lparr>info_id = ''1000'', info_url = ''https://x.com/ada/status/1000'',
           authorName = Some ''Ada'', authorUsername = Some ''ada'', info_text = Some ''hello''\<rparr> \<and>
   fst (resolveReferencedTweetsFromArticle (\<lambda>_. quotingArticle) exampleFetch quotingJson) ''1001'' =
     Some \<lparr>info_id = ''1001'', info_url = ''https://x.com/i/web/status/1001'',
           authorName = Some ''Bob'', authorUsername = None, info_text = None\<rparr> \<and>
   dom (fst (resolveReferencedTweetsFromArticle (\<lambda>_. quotingArticle) exampleFetch quotingJson)) =
     {''999'', ''1000'', ''998'', ''1001''}"
proof -
  have ids: "extractReferencedTweetIds (\<lambda>_. quotingArticle) quotingJson =
      [''999'', ''1000'', ''998'', ''1001'']"
    by code_simp
  have f: "exampleFetch ''999'' = Inl ''not found''" "exampleFetch ''1000'' = Inr exampleTweet"
    "exampleFetch ''998'' = Inl ''rate limited''" "exampleFetch ''1001'' = Inr legacyTweet"
    by (simp_all add: exampleFetch_def)
  note t = resolveReferencedTweets_failure_isolated[of "\<lambda>_. quotingArticle" quotingJson
      exampleFetch, unfolded ids]
  have a: "fst (resolveReferencedTweetsFromArticle (\<lambda>_. quotingArticle) exampleFetch quotingJson) ''999'' =
     Some \<lparr>info_id = ''999'', info_url = ''https://x.com/i/web/status/999'', authorName = None,
           authorUsername = None, info_text = None\<rparr>"
    using t[THEN conjunct1] f by simp
  obtain info where i: "fst (resolveReferencedTweetsFromArticle (\<lambda>_. quotingArticle) exampleFetch quotingJson) ''1000'' = Some info"
    "info_id info = ''1000''" "authorName info = Some ''Ada''" "authorUsername info = Some ''ada''"
    "info_url info = ''https://x.com/ada/status/1000''" "info_text info = Some ''hello''"
    using t[THEN conjunct1] f by (auto simp: exampleTweet_def)
  obtain info' where i': "fst (resolveReferencedTweetsFromArticle (\<lambda>_. quotingArticle) exampleFetch quotingJson) ''1001'' = Some info'"
    "info_id info' = ''1001''" "authorName info' = Some ''Bob''" "authorUsername info' = None"
    "info_url info' = ''https://x.com/i/web/status/1001''" "info_text info' = None"
    using t[THEN conjunct1] f by (auto simp: legacyTweet_def)
  have b: "snd (resolveReferencedTweetsFromArticle (\<lambda>_. quotingArticle) exampleFetch quotingJson) =
     [''[x-to-markdown] Failed to fetch referenced tweet 999: not found'',
      ''[x-to-markdown] Failed to fetch referenced tweet 998: rate limited'']"
    using t[THEN conjunct2, THEN conjunct2, THEN conjunct1] by (simp add: f)
  have c: "dom (fst (resolveReferencedTweetsFromArticle (\<lambda>_. quotingArticle) exampleFetch quotingJson)) =
     {''999'', ''1000'', ''998'', ''1001''}"
    using t[THEN conjunct2, THEN conjunct1] by simp
  from i have i2: "info = \<lparr>info_id = ''1000'', info_url = ''https://x.com/ada/status/1000'',
           authorName = Some ''Ada'', authorUsername = Some ''ada'', info_text = Some ''hello''\<rparr>"
    by (cases info) simp
  from i' have i2': "info' = \<lparr>info_id = ''1001'', info_url = ''https://x.com/i/web/status/1001'',
           authorName = Some ''Bob'', authorUsername = None, info_text = None\<rparr>"
    by (cases info') simp
  show ?thesis
    using ids a b c i(1) i'(1) i2 i2' by simp
qed

section \<open>Properties of the summary of a referenced post\<close>

text \<open>
  C6, as the design states it, fails: \<open>summarizeTweetText\<close> splits the text at newlines
  only, so a run of white space inside a line is not collapsed to one space.
\<close>

theorem summarizeTweetText_keeps_inner_whitespace:
  "summarizeTweetText (Some ''a  b'') = ''a  b''"
  by code_simp

lemma slice_take: "277 < length s \<Longrightarrow> slice s 0 277 = take 277 s"
  by (simp add: slice_def relIndex_def Let_def)

lemma splitNewlines_no_lf:
  "CHR 0x0A \<notin> set cur \<Longrightarrow> \<forall>l \<in> set (splitNewlines cur s). CHR 0x0A \<notin> set l"
proof (induction cur s rule: splitNewlines.induct)
  case (1 cur)
  then show ?case by simp
next
  case (2 cur c cs)
  then show ?case by (auto split: if_splits)
qed

lemma trimEnd_subset: "set (trimEnd s) \<subseteq> set s"
  unfolding trimEnd_def using set_dropWhileD[of _ isWhiteSpace "rev s"] by auto

lemma trim_subset: "set (trim s) \<subseteq> set s"
  unfolding trim_def trimStart_def
  using trimEnd_subset[of "dropWhile isWhiteSpace s"] set_dropWhileD[of _ isWhiteSpace s] by blast

lemma joinWith_set: "set (joinWith sep ls) \<subseteq> set sep \<union> \<Union> (set ` set ls)"
  by (induction sep ls rule: joinWith.induct) auto

lemma normalize_no_lf: "CHR 0x0A \<notin> set (normalizeTweetText s)"
proof -
  have "\<forall>l \<in> set (splitNewlines [] s). CHR 0x0A \<notin> set l"
    by (rule splitNewlines_no_lf) simp
  then have "\<forall>l \<in> set (filter (\<lambda>line. line \<noteq> []) (map trim (splitNewlines [] s))).
               CHR 0x0A \<notin> set l"
    using trim_subset by fastforce
  then show ?thesis
    unfolding normalizeTweetText_def
    using joinWith_set[of "'' ''" "filter (\<lambda>line. line \<noteq> []) (map trim (splitNewlines [] s))"]
    by auto
qed

lemma summarize_no_lf: "CHR 0x0A \<notin> set (summarizeTweetText t)"
proof (cases t)
  case None
  then show ?thesis by (simp add: summarizeTweetText_def)
next
  case (Some s)
  have "set (slice (normalizeTweetText (trim s)) 0 277) \<subseteq> set (normalizeTweetText (trim s))"
    by (auto simp: slice_def Let_def dest: in_set_takeD in_set_dropD)
  with normalize_no_lf[of "trim s"] Some show ?thesis
    by (auto simp: summarizeTweetText_def Let_def)
qed

lemma summarize_length: "length (summarizeTweetText t) \<le> 280"
  by (cases t) (auto simp: summarizeTweetText_def Let_def slice_take)

lemma trim_Nil: "trim [] = []"
  by (simp add: trim_def trimStart_def trimEnd_def)

lemma trim_snoc: "isWhiteSpace w \<Longrightarrow> trim (s @ [w]) = trim s"
proof (cases "\<forall>c \<in> set s. isWhiteSpace c")
  case True
  assume "isWhiteSpace w"
  with True have "dropWhile isWhiteSpace (s @ [w]) = []" "dropWhile isWhiteSpace s = []"
    by simp_all
  then show ?thesis by (simp only: trim_def trimStart_def trimEnd_def)
next
  case False
  assume w: "isWhiteSpace w"
  from False have "dropWhile isWhiteSpace (s @ [w]) = dropWhile isWhiteSpace s @ [w]"
    by (auto simp: dropWhile_append1)
  with w show ?thesis by (simp add: trim_def trimStart_def trimEnd_def)
qed

lemma trim_Cons: "isWhiteSpace w \<Longrightarrow> trim (w # s) = trim s"
  by (simp add: trim_def trimStart_def)

lemma splitOn_cur:
  "splitOn sep cur s = (cur @ hd (splitOn sep [] s)) # tl (splitOn sep [] s)"
proof (induction s arbitrary: cur)
  case Nil
  then show ?case by simp
next
  case (Cons c cs)
  show ?case
  proof (cases "c = sep")
    case True
    then show ?thesis by simp
  next
    case False
    with Cons[of "cur @ [c]"] Cons[of "[c]"] show ?thesis by simp
  qed
qed

lemma kept_leading_lf:
  "keptLines (splitOn (CHR 0x0A) [] (dropWhile (\<lambda>x. x = CHR 0x0A) cs)) =
   keptLines (splitOn (CHR 0x0A) [] cs)"
  by (induction cs) (auto simp: keptLines_def trim_Nil)

lemma kept_splitNewlines:
  "keptLines (splitNewlines cur s) = keptLines (splitOn (CHR 0x0A) cur s)"
proof (induction cur s rule: splitNewlines.induct)
  case (1 cur)
  then show ?case by simp
next
  case (2 cur c cs)
  show ?case
  proof (cases "c = CHR 0x0A")
    case True
    with 2(1) kept_leading_lf[of cs] show ?thesis by (simp add: keptLines_def)
  next
    case False
    show ?thesis
    proof (cases "c = CHR 0x0D \<and> (case cs of [] \<Rightarrow> False | d # _ \<Rightarrow> d = CHR 0x0A)")
      case True
      then obtain cs' where cs: "cs = CHR 0x0A # cs'" by (cases cs) auto
      have w: "isWhiteSpace (CHR 0x0D)" by (simp add: isWhiteSpace_def)
      from 2(2)[OF False True] kept_leading_lf[of cs] True False cs
      show ?thesis by (simp add: keptLines_def trim_snoc[OF w] trim_Nil)
    next
      case True': False
      with 2(3)[OF False True'] False show ?thesis by auto
    qed
  qed
qed

lemma kept_snoc:
  "isWhiteSpace w \<Longrightarrow>
   keptLines (splitOn (CHR 0x0A) cur (s @ [w])) = keptLines (splitOn (CHR 0x0A) cur s)"
  by (induction s arbitrary: cur) (auto simp: keptLines_def trim_snoc trim_Nil)

lemma kept_suffix:
  "\<forall>w \<in> set zs. isWhiteSpace w \<Longrightarrow>
   keptLines (splitOn (CHR 0x0A) cur (s @ zs)) = keptLines (splitOn (CHR 0x0A) cur s)"
proof (induction zs arbitrary: s)
  case Nil
  then show ?case by simp
next
  case (Cons z zs)
  from Cons.IH[of "s @ [z]"] Cons.prems kept_snoc[of z cur s] show ?case by simp
qed

lemma kept_Cons:
  assumes "isWhiteSpace w"
  shows "keptLines (splitOn (CHR 0x0A) [] (w # s)) = keptLines (splitOn (CHR 0x0A) [] s)"
proof (cases "w = CHR 0x0A")
  case True
  then show ?thesis by (simp add: keptLines_def trim_Nil)
next
  case False
  have "splitOn (CHR 0x0A) [w] s =
          ([w] @ hd (splitOn (CHR 0x0A) [] s)) # tl (splitOn (CHR 0x0A) [] s)"
    by (rule splitOn_cur)
  moreover have "splitOn (CHR 0x0A) [] s =
          hd (splitOn (CHR 0x0A) [] s) # tl (splitOn (CHR 0x0A) [] s)"
    using splitOn_cur[of "CHR 0x0A" "[]" s] by simp
  ultimately show ?thesis
    using False assms
    by (metis (no_types, lifting) keptLines_def trim_Cons append_Cons append_Nil list.simps(9)
        splitOn.simps(2))
qed

lemma kept_prefix:
  "\<forall>w \<in> set zs. isWhiteSpace w \<Longrightarrow>
   keptLines (splitOn (CHR 0x0A) [] (zs @ s)) = keptLines (splitOn (CHR 0x0A) [] s)"
  by (induction zs) (simp_all add: kept_Cons del: splitOn.simps)

lemma kept_trim:
  "keptLines (splitOn (CHR 0x0A) [] (trim s)) = keptLines (splitOn (CHR 0x0A) [] s)"
proof -
  let ?t = "dropWhile isWhiteSpace s"
  have "?t = trimEnd ?t @ rev (takeWhile isWhiteSpace (rev ?t))"
    unfolding trimEnd_def by (metis rev_append rev_rev_ident takeWhile_dropWhile_id)
  moreover have "\<forall>w \<in> set (rev (takeWhile isWhiteSpace (rev ?t))). isWhiteSpace w"
    by (auto dest: set_takeWhileD)
  ultimately have a: "keptLines (splitOn (CHR 0x0A) [] (trimEnd ?t)) =
      keptLines (splitOn (CHR 0x0A) [] ?t)"
    using kept_suffix[of "rev (takeWhile isWhiteSpace (rev ?t))" "[]" "trimEnd ?t"] by simp
  have "s = takeWhile isWhiteSpace s @ ?t" by simp
  moreover have "\<forall>w \<in> set (takeWhile isWhiteSpace s). isWhiteSpace w"
    by (auto dest: set_takeWhileD)
  ultimately have b: "keptLines (splitOn (CHR 0x0A) [] ?t) = keptLines (splitOn (CHR 0x0A) [] s)"
    using kept_prefix[of "takeWhile isWhiteSpace s" ?t] by simp
  from a b show ?thesis by (simp add: trim_def trimStart_def)
qed

lemma splitOn_no_sep: "sep \<notin> set l \<Longrightarrow> splitOn sep cur (l @ sep # rest) = (cur @ l) # splitOn sep [] rest"
  by (induction l arbitrary: cur) auto

lemma splitOn_no_sep_end: "sep \<notin> set l \<Longrightarrow> splitOn sep cur l = [cur @ l]"
  by (induction l arbitrary: cur) auto

lemma splitOn_lines:
  "\<forall>l \<in> set (l0 # ls). sep \<notin> set l \<Longrightarrow>
   splitOn sep cur (l0 @ concat (map (\<lambda>l. sep # l) ls)) = (cur @ l0) # ls"
proof (induction ls arbitrary: cur l0)
  case Nil
  then show ?case by (simp add: splitOn_no_sep_end)
next
  case (Cons l ls)
  from Cons.prems have "splitOn sep cur (l0 @ sep # (l @ concat (map (\<lambda>l. sep # l) ls))) =
     (cur @ l0) # splitOn sep [] (l @ concat (map (\<lambda>l. sep # l) ls))"
    using splitOn_no_sep[of sep l0 cur] by simp
  with Cons.IH[of l "[]"] Cons.prems show ?case by simp
qed

lemma joinWith_space:
  "joinWith '' '' ks = (case ks of [] \<Rightarrow> [] | k # ks' \<Rightarrow> k @ concat (map (\<lambda>l. CHR '' '' # l) ks'))"
  by (induction "'' ''" ks rule: joinWith.induct) auto

lemma normalize_lines:
  assumes "\<forall>l \<in> set (l0 # ls). CHR 0x0A \<notin> set l"
  shows "normalizeTweetText (trim (l0 @ concat (map (\<lambda>l. CHR 0x0A # l) ls))) =
     joinWith '' '' (keptLines (l0 # ls))"
proof -
  have "keptLines (splitNewlines [] (trim (l0 @ concat (map (\<lambda>l. CHR 0x0A # l) ls)))) =
        keptLines (splitOn (CHR 0x0A) [] (l0 @ concat (map (\<lambda>l. CHR 0x0A # l) ls)))"
    by (simp add: kept_splitNewlines kept_trim)
  also have "\<dots> = keptLines (l0 # ls)"
    using splitOn_lines[OF assms, of "[]"] by simp
  finally show ?thesis by (simp add: normalizeTweetText_def keptLines_def)
qed

lemma summarize_lines:
  assumes "\<forall>l \<in> set (l0 # ls). CHR 0x0A \<notin> set l"
  shows "summarizeTweetText (Some (l0 @ concat (map (\<lambda>l. CHR 0x0A # l) ls))) =
     (let n = joinWith '' '' (keptLines (l0 # ls))
      in if length n \<le> 280 then n else take 277 n @ ''...'')"
proof (cases "trim (l0 @ concat (map (\<lambda>l. CHR 0x0A # l) ls)) = []")
  case True
  with normalize_lines[OF assms] have "joinWith '' '' (keptLines (l0 # ls)) = []"
    by (simp add: normalizeTweetText_def keptLines_def trim_Nil)
  with True show ?thesis by (simp add: summarizeTweetText_def)
next
  case False
  with normalize_lines[OF assms] show ?thesis
    by (simp add: summarizeTweetText_def Let_def slice_take)
qed


lemma keptLines_explicit:
  "keptLines ls =
     filter (\<lambda>l. l \<noteq> [])
       (map (\<lambda>l. rev (dropWhile (\<lambda>c. c \<in> {CHR 0x09, CHR 0x0A, CHR 0x0B, CHR 0x0C, CHR 0x0D,
                                              CHR 0x20, CHR 0xA0})
                         (rev (dropWhile (\<lambda>c. c \<in> {CHR 0x09, CHR 0x0A, CHR 0x0B, CHR 0x0C,
                                                       CHR 0x0D, CHR 0x20, CHR 0xA0}) l)))) ls)"
proof -
  have w: "(\<lambda>c. c \<in> {CHR 0x09, CHR 0x0A, CHR 0x0B, CHR 0x0C, CHR 0x0D, CHR 0x20, CHR 0xA0}) =
           isWhiteSpace"
    by (rule ext) (simp add: isWhiteSpace_def)
  have t: "trim = (\<lambda>l. rev (dropWhile isWhiteSpace (rev (dropWhile isWhiteSpace l))))"
    by (rule ext) (simp add: trim_def trimStart_def trimEnd_def)
  show ?thesis
    unfolding w keptLines_def t ..
qed

text \<open>
  C6, amended: \<open>summarizeTweetText\<close> cuts the text into the lines between its line feeds,
  strips the white space (tab, line feed, vertical tab, form feed, carriage return, space
  and no-break space) from both ends of each line, drops the lines that are empty then,
  and joins the others with one space; white space inside a line stays as it is. When the
  joined text is longer than 280 characters, the summary is its first 277 characters and
  \<open>...\<close>, 280 characters in all; otherwise it is the joined text. Every text is such a
  sequence of lines, so this gives the summary of every text. The summary of no text is
  empty, and a summary holds no line feed and is never longer than 280 characters.
\<close>

theorem summarizeTweetText_bounds:
  "length (summarizeTweetText t) \<le> 280 \<and>
   CHR 0x0A \<notin> set (summarizeTweetText t) \<and>
   summarizeTweetText None = [] \<and>
   ((\<forall>l \<in> set (l0 # ls). CHR 0x0A \<notin> set l) \<longrightarrow>
      summarizeTweetText (Some (l0 @ concat (map (\<lambda>l. CHR 0x0A # l) ls))) =
        (let kept =
               filter (\<lambda>l. l \<noteq> [])
                 (map (\<lambda>l. rev (dropWhile (\<lambda>c. c \<in> {CHR 0x09, CHR 0x0A, CHR 0x0B, CHR 0x0C,
                                                        CHR 0x0D, CHR 0x20, CHR 0xA0})
                                   (rev (dropWhile (\<lambda>c. c \<in> {CHR 0x09, CHR 0x0A, CHR 0x0B,
                                                                 CHR 0x0C, CHR 0x0D, CHR 0x20,
                                                                 CHR 0xA0}) l))))
                    (l0 # ls));
             n = (case kept of [] \<Rightarrow> [] | k # ks \<Rightarrow> k @ concat (map (\<lambda>l. CHR '' '' # l) ks))
         in if length n \<le> 280 then n else take 277 n @ ''...''))"
proof -
  have "summarizeTweetText None = []"
    by (simp add: summarizeTweetText_def)
  moreover have "(\<forall>l \<in> set (l0 # ls). CHR 0x0A \<notin> set l) \<longrightarrow>
      summarizeTweetText (Some (l0 @ concat (map (\<lambda>l. CHR 0x0A # l) ls))) =
        (let kept =
               filter (\<lambda>l. l \<noteq> [])
                 (map (\<lambda>l. rev (dropWhile (\<lambda>c. c \<in> {CHR 0x09, CHR 0x0A, CHR 0x0B, CHR 0x0C,
                                                        CHR 0x0D, CHR 0x20, CHR 0xA0})
                                   (rev (dropWhile (\<lambda>c. c \<in> {CHR 0x09, CHR 0x0A, CHR 0x0B,
                                                                 CHR 0x0C, CHR 0x0D, CHR 0x20,
                                                                 CHR 0xA0}) l))))
                    (l0 # ls));
             n = (case kept of [] \<Rightarrow> [] | k # ks \<Rightarrow> k @ concat (map (\<lambda>l. CHR '' '' # l) ks))
         in if length n \<le> 280 then n else take 277 n @ ''...'')"
  proof
    assume a: "\<forall>l \<in> set (l0 # ls). CHR 0x0A \<notin> set l"
    show "summarizeTweetText (Some (l0 @ concat (map (\<lambda>l. CHR 0x0A # l) ls))) =
        (let kept =
               filter (\<lambda>l. l \<noteq> [])
                 (map (\<lambda>l. rev (dropWhile (\<lambda>c. c \<in> {CHR 0x09, CHR 0x0A, CHR 0x0B, CHR 0x0C,
                                                        CHR 0x0D, CHR 0x20, CHR 0xA0})
                                   (rev (dropWhile (\<lambda>c. c \<in> {CHR 0x09, CHR 0x0A, CHR 0x0B,
                                                                 CHR 0x0C, CHR 0x0D, CHR 0x20,
                                                                 CHR 0xA0}) l))))
                    (l0 # ls));
             n = (case kept of [] \<Rightarrow> [] | k # ks \<Rightarrow> k @ concat (map (\<lambda>l. CHR '' '' # l) ks))
         in if length n \<le> 280 then n else take 277 n @ ''...'')"
      unfolding summarize_lines[OF a] joinWith_space keptLines_explicit Let_def ..
  qed
  ultimately show ?thesis
    using summarize_length[of t] summarize_no_lf[of t] by blast
qed

theorem summarizeTweetText_bounds_witness:
  "sixLineText =
     ''  a '' @ [CHR 0x0D, CHR 0x0A, CHR 0x0A, CHR 0x09] @ '' b  c '' @ [CHR 0x0A] @ ''   '' @
     [CHR 0x0D, CHR 0x0A] @ ''d'' @ [CHR 0x0D] @ ''e'' @ [CHR 0x0A] \<and>
   summarizeTweetText (Some sixLineText) = ''a b  c d'' @ [CHR 0x0D] @ ''e'' \<and>
   twoLineText = ''a '' @ [CHR 0x0D, CHR 0x0A, CHR 0x0A] @ '' b'' \<and>
   summarizeTweetText (Some twoLineText) = ''a b'' \<and>
   summarizeTweetText (Some longTwoLineText) =
     replicate 200 (CHR ''x'') @ '' '' @ replicate 76 (CHR ''y'') @ ''...'' \<and>
   summarizeTweetText (Some (replicate 280 (CHR ''x''))) = replicate 280 (CHR ''x'') \<and>
   summarizeTweetText (Some (replicate 281 (CHR ''x''))) = replicate 277 (CHR ''x'') @ ''...'' \<and>
   summarizeTweetText (Some ''  a  b '') = ''a  b'' \<and>
   summarizeTweetText (Some ([CHR 0x0A, CHR 0x20, CHR 0x0D, CHR 0x0A])) = []"
proof -
  have e6: "sixLineText =
      (''  a '' @ [CHR 0x0D]) @
      concat (map (\<lambda>l. CHR 0x0A # l)
                [[], [CHR 0x09] @ '' b  c '', ''   '' @ [CHR 0x0D], ''d'' @ [CHR 0x0D] @ ''e'', []])"
    by (simp add: sixLineText_def)
  have e2: "twoLineText = (''a '' @ [CHR 0x0D]) @ concat (map (\<lambda>l. CHR 0x0A # l) [[], '' b''])"
    by (simp add: twoLineText_def)
  have eL: "longTwoLineText =
      replicate 200 (CHR ''x'') @ concat (map (\<lambda>l. CHR 0x0A # l) [replicate 100 (CHR ''y'')])"
    by (simp add: longTwoLineText_def)
  have e0: "[CHR 0x0A, CHR 0x20, CHR 0x0D, CHR 0x0A] =
      [] @ concat (map (\<lambda>l. CHR 0x0A # l) [[CHR 0x20, CHR 0x0D], []])"
    by simp
  have x: "CHR 0x0A \<notin> set (replicate n (CHR ''x''))" "CHR 0x0A \<notin> set (replicate n (CHR ''y''))" for n
    by auto
  have 1: "summarizeTweetText (Some sixLineText) = ''a b  c d'' @ [CHR 0x0D] @ ''e''"
    unfolding e6
    using summarizeTweetText_bounds[of None "''  a '' @ [CHR 0x0D]"
        "[[], [CHR 0x09] @ '' b  c '', ''   '' @ [CHR 0x0D], ''d'' @ [CHR 0x0D] @ ''e'', []]"]
    by simp
  have 2: "summarizeTweetText (Some twoLineText) = ''a b''"
    unfolding e2
    using summarizeTweetText_bounds[of None "''a '' @ [CHR 0x0D]" "[[], '' b'']"]
    by simp
  have 3: "summarizeTweetText (Some longTwoLineText) =
     replicate 200 (CHR ''x'') @ '' '' @ replicate 76 (CHR ''y'') @ ''...''"
    unfolding eL
    using summarizeTweetText_bounds[of None "replicate 200 (CHR ''x'')"
        "[replicate 100 (CHR ''y'')]"] x
    by (simp add: dropWhile_replicate)
  have 4: "summarizeTweetText (Some (replicate 280 (CHR ''x''))) = replicate 280 (CHR ''x'')"
    using summarizeTweetText_bounds[of None "replicate 280 (CHR ''x'')" "[]"] x
    by (simp add: dropWhile_replicate)
  have 5: "summarizeTweetText (Some (replicate 281 (CHR ''x''))) =
      replicate 277 (CHR ''x'') @ ''...''"
    using summarizeTweetText_bounds[of None "replicate 281 (CHR ''x'')" "[]"] x
    by (simp add: dropWhile_replicate)
  have 6: "summarizeTweetText (Some ''  a  b '') = ''a  b''"
    using summarizeTweetText_bounds[of None "''  a  b ''" "[]"]
    by simp
  have 7: "summarizeTweetText (Some ([CHR 0x0A, CHR 0x20, CHR 0x0D, CHR 0x0A])) = []"
    unfolding e0
    using summarizeTweetText_bounds[of None "[]" "[[CHR 0x20, CHR 0x0D], []]"]
    by simp
  from 1 2 3 4 5 6 7 show ?thesis
    by (simp add: sixLineText_def twoLineText_def)
qed

section \<open>Properties of the assembler's fallback\<close>

lemma sequenceResults_Inl:
  "(\<exists>e. sequenceResults rs = Inl e) \<longleftrightarrow> (\<exists>r \<in> set rs. isl r)"
  by (induction rs) (auto split: sum.splits)

lemma sequenceResults_map_Inr: "sequenceResults (map Inr xs) = Inr xs"
  by (induction xs) auto

lemma sequenceResults_Inr: "sequenceResults rs = Inr xs \<Longrightarrow> rs = map Inr xs"
  by (induction rs arbitrary: xs) (auto split: sum.splits)

lemma serialize_throws: "isl (serializeJSONProperty ind v) \<longleftrightarrow> hasBigInt v"
proof (induction v arbitrary: ind)
  case (JArr xs)
  have "isl (serializeJSONProperty ind (JArr xs)) \<longleftrightarrow>
        (\<exists>e. sequenceResults (map (serializeJSONProperty (ind @ ''  '')) xs) = Inl e)"
    by (auto split: sum.splits)
  also have "\<dots> \<longleftrightarrow> (\<exists>x \<in> set xs. isl (serializeJSONProperty (ind @ ''  '') x))"
    by (simp add: sequenceResults_Inl)
  finally show ?case using JArr by simp
next
  case (JObj props)
  have "isl (serializeJSONProperty ind (JObj props)) \<longleftrightarrow>
        (\<exists>e. sequenceResults (map (\<lambda>kv. serializeJSONProperty (ind @ ''  '') (snd kv)) props) = Inl e)"
    by (auto simp: Let_def split: sum.splits)
  also have "\<dots> \<longleftrightarrow> (\<exists>kv \<in> set props. isl (serializeJSONProperty (ind @ ''  '') (snd kv)))"
    by (simp add: sequenceResults_Inl)
  finally show ?case using JObj by (auto simp: snds.simps)
qed simp_all


lemma sequenceResults_total:
  "\<forall>r \<in> set rs. \<not> isl r \<Longrightarrow> sequenceResults rs = Inr (map projr rs)"
  by (induction rs) (auto split: sum.splits)

lemma joinWith_concat:
  "joinWith sep ls = (case ls of [] \<Rightarrow> [] | m # ms \<Rightarrow> m @ concat (map (\<lambda>l. sep @ l) ms))"
  by (induction sep ls rule: joinWith.induct) auto

lemma joinWith_comma:
  "joinWith [CHR '','', CHR 0x0A] ls =
     (case ls of [] \<Rightarrow> [] | m # ms \<Rightarrow> m @ concat (map (\<lambda>l. CHR '','' # CHR 0x0A # l) ms))"
proof -
  have "(@) [CHR '','', CHR 0x0A] = (\<lambda>l. CHR '','' # CHR 0x0A # l)"
    by (rule ext) simp
  then show ?thesis
    by (simp add: joinWith_concat split: list.splits)
qed

lemma serialize_array:
  assumes "\<forall>x \<in> set xs. \<not> hasBigInt x"
  shows "serializeJSONProperty ind (JArr xs) =
     Inr (Some
       (if xs = [] then ''[]''
        else ''['' @ [CHR 0x0A] @
             (case map (\<lambda>x. ind @ ''  '' @
                          (case serializeJSONProperty (ind @ ''  '') x of
                             Inr (Some t) \<Rightarrow> t
                           | _ \<Rightarrow> ''null'')) xs of
                [] \<Rightarrow> []
              | m # ms \<Rightarrow> m @ concat (map (\<lambda>l. '','' @ [CHR 0x0A] @ l) ms)) @
             [CHR 0x0A] @ ind @ '']''))"
proof -
  from assms have "\<forall>r \<in> set (map (serializeJSONProperty (ind @ ''  '')) xs). \<not> isl r"
    by (simp add: serialize_throws)
  then have sq: "sequenceResults (map (serializeJSONProperty (ind @ ''  '')) xs) =
      Inr (map projr (map (serializeJSONProperty (ind @ ''  '')) xs))"
    by (rule sequenceResults_total)
  have el: "(case projr (serializeJSONProperty (ind @ ''  '') x) of None \<Rightarrow> ''null'' | Some t \<Rightarrow> t) =
      (case serializeJSONProperty (ind @ ''  '') x of Inr (Some t) \<Rightarrow> t | _ \<Rightarrow> ''null'')"
    if "x \<in> set xs" for x
    using that assms serialize_throws[of "ind @ ''  ''" x]
    by (cases "serializeJSONProperty (ind @ ''  '') x") (auto split: option.splits)
  have "map (\<lambda>p. ind @ ''  '' @ (case p of None \<Rightarrow> ''null'' | Some t \<Rightarrow> t))
          (map projr (map (serializeJSONProperty (ind @ ''  '')) xs)) =
        map (\<lambda>x. ind @ ''  '' @
               (case serializeJSONProperty (ind @ ''  '') x of Inr (Some t) \<Rightarrow> t | _ \<Rightarrow> ''null'')) xs"
    using el by simp
  with sq show ?thesis
    by (simp add: joinWith_comma del: map_map split: list.splits)
qed

lemma serialize_object:
  assumes "\<forall>kv \<in> set props. \<not> hasBigInt (snd kv)"
  shows "serializeJSONProperty ind (JObj props) =
     Inr (Some
       (let members =
              concat (map (\<lambda>kv. case serializeJSONProperty (ind @ ''  '') (snd kv) of
                                  Inr (Some t) \<Rightarrow>
                                    [ind @ ''  '' @ [CHR 0x22] @ concat (map quoteChar (fst kv)) @
                                     [CHR 0x22] @ '': '' @ t]
                                | _ \<Rightarrow> []) props)
        in if members = [] then ''{}''
           else ''{'' @ [CHR 0x0A] @
                (case members of
                   [] \<Rightarrow> []
                 | m # ms \<Rightarrow> m @ concat (map (\<lambda>l. '','' @ [CHR 0x0A] @ l) ms)) @
                [CHR 0x0A] @ ind @ ''}''))"
proof -
  let ?f = "\<lambda>kv. serializeJSONProperty (ind @ ''  '') (snd kv)"
  from assms have "\<forall>r \<in> set (map ?f props). \<not> isl r"
    by (simp add: serialize_throws)
  then have sq: "sequenceResults (map ?f props) = Inr (map projr (map ?f props))"
    by (rule sequenceResults_total)
  have z: "zip (map fst props) (map projr (map ?f props)) =
           map (\<lambda>kv. (fst kv, projr (?f kv))) props"
    by (induction props) auto
  have el: "(case projr (?f kv) of None \<Rightarrow> []
             | Some t \<Rightarrow> [ind @ ''  '' @ quoteJson (fst kv) @ '': '' @ t]) =
      (case ?f kv of
         Inr (Some t) \<Rightarrow> [ind @ ''  '' @ [CHR 0x22] @ concat (map quoteChar (fst kv)) @
                           [CHR 0x22] @ '': '' @ t]
       | _ \<Rightarrow> [])"
    if "kv \<in> set props" for kv
    using that assms serialize_throws[of "ind @ ''  ''" "snd kv"]
    by (cases "?f kv") (auto simp: quoteJson_def split: option.splits)
  have "concat (map (\<lambda>kp. case snd kp of None \<Rightarrow> []
                           | Some t \<Rightarrow> [ind @ ''  '' @ quoteJson (fst kp) @ '': '' @ t])
                  (zip (map fst props) (map projr (map ?f props)))) =
        concat (map (\<lambda>kv. case ?f kv of
                             Inr (Some t) \<Rightarrow> [ind @ ''  '' @ [CHR 0x22] @
                                               concat (map quoteChar (fst kv)) @
                                               [CHR 0x22] @ '': '' @ t]
                           | _ \<Rightarrow> []) props)"
  proof -
    have "map (\<lambda>kp. case snd kp of None \<Rightarrow> []
                           | Some t \<Rightarrow> [ind @ ''  '' @ quoteJson (fst kp) @ '': '' @ t])
            (map (\<lambda>kv. (fst kv, projr (?f kv))) props) =
          map (\<lambda>kv. case ?f kv of
                             Inr (Some t) \<Rightarrow> [ind @ ''  '' @ [CHR 0x22] @
                                               concat (map quoteChar (fst kv)) @
                                               [CHR 0x22] @ '': '' @ t]
                           | _ \<Rightarrow> []) props"
      unfolding map_map comp_def fst_conv snd_conv
      by (rule map_cong[OF refl]) (rule el)
    then show ?thesis unfolding z by (rule arg_cong)
  qed
  with sq show ?thesis
    by (simp add: Let_def joinWith_comma del: map_map split: list.splits)
qed

lemma quoteChar_plain:
  "32 \<le> (of_char c :: nat) \<Longrightarrow> c \<noteq> CHR 0x22 \<Longrightarrow> c \<noteq> CHR 0x5C \<Longrightarrow> quoteChar c = [c]"
  by (auto simp: quoteChar_def)

lemma quoteJson_plain:
  "\<forall>c \<in> set s. 32 \<le> (of_char c :: nat) \<and> c \<noteq> CHR 0x22 \<and> c \<noteq> CHR 0x5C \<Longrightarrow>
   quoteJson s = [CHR 0x22] @ s @ [CHR 0x22]"
proof -
  assume a: "\<forall>c \<in> set s. 32 \<le> (of_char c :: nat) \<and> c \<noteq> CHR 0x22 \<and> c \<noteq> CHR 0x5C"
  then have "concat (map quoteChar s) = s"
    by (induction s) (simp_all add: quoteChar_plain)
  then show ?thesis by (simp add: quoteJson_def)
qed

lemma isStringProperty_iff:
  "isStringProperty v name \<longleftrightarrow> (\<exists>props s. v = JObj props \<and> map_of props name = Some (JStr s))"
  by (auto simp: isStringProperty_def property_def split: json.splits option.splits)

lemma isTruthyProperty_iff:
  "isTruthyProperty v name \<longleftrightarrow>
     (\<exists>props w. v = JObj props \<and> map_of props name = Some w \<and>
        w \<noteq> JUndefined \<and> w \<noteq> JNull \<and> w \<noteq> JBool False \<and> w \<noteq> JBigInt 0 \<and> w \<noteq> JStr [] \<and>
        (\<forall>n. w = JNum n \<longrightarrow> \<not> numberFalsy n))"
  by (auto simp: isTruthyProperty_def property_def truthyJson_def split: json.splits option.splits)

lemma mismatch_result:
  assumes "\<not> isStringProperty v ''title''" "\<not> isStringProperty v ''plain_text''"
          "\<not> isStringProperty v ''preview_text''" "\<not> isTruthyProperty v ''content_state''"
  shows "formatArticleMarkdown asArticle v options =
     (case serializeJSONProperty [] v of
        Inl e \<Rightarrow> Inl e
      | Inr t \<Rightarrow>
          Inr \<lparr>markdown = ''```json'' @ [CHR 0x0A] @
                           (case t of None \<Rightarrow> ''undefined'' | Some s \<Rightarrow> s) @ [CHR 0x0A] @ ''```'',
               coverUrl = None\<rparr>)"
  using assms
  by (simp add: formatArticleMarkdown_def coerceArticleEntity_def stringify_def templateText_def
        split: sum.splits)

lemma match_result:
  assumes "isStringProperty v ''title'' \<or> isStringProperty v ''plain_text'' \<or>
           isStringProperty v ''preview_text'' \<or> isTruthyProperty v ''content_state''"
  shows "\<not> isl (formatArticleMarkdown asArticle v options)"
proof -
  from assms obtain props where "v = JObj props"
    by (auto simp: isStringProperty_iff isTruthyProperty_iff)
  with assms show ?thesis
    by (simp add: formatArticleMarkdown_def coerceArticleEntity_def truthyJson_def typeofObject_def)
qed


text \<open>
  C9, as the design states it, fails: a BigInt has none of the recognizable fields, nor has
  an object that holds one in an array, and \<open>JSON.stringify\<close> raises a \<open>TypeError\<close> for
  both, which \<open>formatArticleMarkdown\<close> does not catch.
\<close>

theorem formatArticleMarkdown_throws_for_bigint:
  "\<not> isStringProperty bigIntValue ''title'' \<and> \<not> isStringProperty bigIntValue ''plain_text'' \<and>
   \<not> isStringProperty bigIntValue ''preview_text'' \<and>
   \<not> isTruthyProperty bigIntValue ''content_state'' \<and>
   bigIntValue = JObj [(''views'', JArr [JBigInt 10])] \<and>
   formatArticleMarkdown (\<lambda>_. emptyArticle) bigIntValue \<lparr>referencedTweets = None\<rparr> =
     Inl TypeError \<and>
   formatArticleMarkdown (\<lambda>_. emptyArticle) (JBigInt 10) \<lparr>referencedTweets = None\<rparr> =
     Inl TypeError"
  by (simp add: bigIntValue_def formatArticleMarkdown_def coerceArticleEntity_def stringify_def
        isStringProperty_def isTruthyProperty_def property_def truthyJson_def typeofObject_def)

text \<open>
  C9, amended: let the input be made of \<open>undefined\<close>, \<open>null\<close>, booleans, Numbers, BigInts,
  strings, arrays and plain objects, and have none of the recognizable fields: it is no
  object with a string under \<open>title\<close>, \<open>plain_text\<close> or \<open>preview_text\<close> or with a truthy
  value under \<open>content_state\<close>. If no BigInt occurs in it, \<open>formatArticleMarkdown\<close> returns,
  without any error, a null cover URL and the Markdown that consists of the line
  \<open>```json\<close>, the text of the input and the line \<open>```\<close>, where the text is the word
  \<open>undefined\<close> for the input \<open>undefined\<close> and otherwise the JSON text of the input with an
  indentation of two spaces: \<open>null\<close>, \<open>true\<close> and \<open>false\<close> as such, a Number as its text and
  as \<open>null\<close> when it is not finite, a string between double quotes, \<open>[]\<close> for an empty
  array and otherwise the elements on lines of their own, separated by commas, between
  \<open>[\<close> and \<open>]\<close>, with \<open>null\<close> for an element that is \<open>undefined\<close>, and \<open>{}\<close> for an object
  with no property that has a JSON text and otherwise the properties that have one as
  \<open>"name": text\<close> on lines of their own between \<open>{\<close> and \<open>}\<close>. For the empty object the
  block holds exactly \<open>{}\<close>. If a BigInt occurs in the input, the call throws a
  \<open>TypeError\<close>, and it throws in no other case.
\<close>

theorem formatArticleMarkdown_shape_mismatch:
  "(\<not> isStringProperty v ''title'' \<and> \<not> isStringProperty v ''plain_text'' \<and>
    \<not> isStringProperty v ''preview_text'' \<and> \<not> isTruthyProperty v ''content_state'' \<and>
    \<not> hasBigInt v \<longrightarrow>
      (\<exists>t. serializeJSONProperty [] v = Inr t \<and>
           formatArticleMarkdown asArticle v options =
             Inr \<lparr>markdown = ''```json'' @ [CHR 0x0A] @
                              (case t of None \<Rightarrow> ''undefined'' | Some s \<Rightarrow> s) @
                              [CHR 0x0A] @ ''```'',
                  coverUrl = None\<rparr>)) \<and>
   ((\<exists>e. formatArticleMarkdown asArticle v options = Inl e) \<longleftrightarrow>
      \<not> isStringProperty v ''title'' \<and> \<not> isStringProperty v ''plain_text'' \<and>
      \<not> isStringProperty v ''preview_text'' \<and> \<not> isTruthyProperty v ''content_state'' \<and>
      hasBigInt v) \<and>
   formatArticleMarkdown asArticle (JObj []) options =
     Inr \<lparr>markdown = ''```json'' @ [CHR 0x0A] @ ''{}'' @ [CHR 0x0A] @ ''```'', coverUrl = None\<rparr> \<and>
   (isStringProperty v name \<longleftrightarrow>
      (\<exists>props s. v = JObj props \<and> map_of props name = Some (JStr s))) \<and>
   (isTruthyProperty v name \<longleftrightarrow>
      (\<exists>props w. v = JObj props \<and> map_of props name = Some w \<and>
         w \<noteq> JUndefined \<and> w \<noteq> JNull \<and> w \<noteq> JBool False \<and> w \<noteq> JBigInt 0 \<and> w \<noteq> JStr [] \<and>
         (\<forall>n. w = JNum n \<longrightarrow> \<not> numberFalsy n))) \<and>
   (serializeJSONProperty ind v = Inr None \<longleftrightarrow> v = JUndefined) \<and>
   serializeJSONProperty ind JNull = Inr (Some ''null'') \<and>
   serializeJSONProperty ind (JBool True) = Inr (Some ''true'') \<and>
   serializeJSONProperty ind (JBool False) = Inr (Some ''false'') \<and>
   serializeJSONProperty ind (JNum (Number f (Some text))) = Inr (Some text) \<and>
   serializeJSONProperty ind (JNum (Number f None)) = Inr (Some ''null'') \<and>
   ((\<forall>c \<in> set s. 32 \<le> (of_char c :: nat) \<and> c \<noteq> CHR 0x22 \<and> c \<noteq> CHR 0x5C) \<longrightarrow>
      serializeJSONProperty ind (JStr s) = Inr (Some ([CHR 0x22] @ s @ [CHR 0x22]))) \<and>
   ((\<forall>x \<in> set xs. \<not> hasBigInt x) \<longrightarrow>
      serializeJSONProperty ind (JArr xs) =
        Inr (Some
          (if xs = [] then ''[]''
           else ''['' @ [CHR 0x0A] @
                (case map (\<lambda>x. ind @ ''  '' @
                             (case serializeJSONProperty (ind @ ''  '') x of
                                Inr (Some t) \<Rightarrow> t
                              | _ \<Rightarrow> ''null'')) xs of
                   [] \<Rightarrow> []
                 | m # ms \<Rightarrow> m @ concat (map (\<lambda>l. '','' @ [CHR 0x0A] @ l) ms)) @
                [CHR 0x0A] @ ind @ '']''))) \<and>
   ((\<forall>kv \<in> set props. \<not> hasBigInt (snd kv)) \<longrightarrow>
      serializeJSONProperty ind (JObj props) =
        Inr (Some
          (let members =
                 concat (map (\<lambda>kv. case serializeJSONProperty (ind @ ''  '') (snd kv) of
                                     Inr (Some t) \<Rightarrow>
                                       [ind @ ''  '' @ [CHR 0x22] @
                                        concat (map quoteChar (fst kv)) @
                                        [CHR 0x22] @ '': '' @ t]
                                   | _ \<Rightarrow> []) props)
           in if members = [] then ''{}''
              else ''{'' @ [CHR 0x0A] @
                   (case members of
                      [] \<Rightarrow> []
                    | m # ms \<Rightarrow> m @ concat (map (\<lambda>l. '','' @ [CHR 0x0A] @ l) ms)) @
                   [CHR 0x0A] @ ind @ ''}'')))"
proof -
  have a: "\<not> isStringProperty v ''title'' \<and> \<not> isStringProperty v ''plain_text'' \<and>
    \<not> isStringProperty v ''preview_text'' \<and> \<not> isTruthyProperty v ''content_state'' \<and>
    \<not> hasBigInt v \<longrightarrow>
      (\<exists>t. serializeJSONProperty [] v = Inr t \<and>
           formatArticleMarkdown asArticle v options =
             Inr \<lparr>markdown = ''```json'' @ [CHR 0x0A] @
                              (case t of None \<Rightarrow> ''undefined'' | Some s \<Rightarrow> s) @
                              [CHR 0x0A] @ ''```'',
                  coverUrl = None\<rparr>)"
  proof
    assume h: "\<not> isStringProperty v ''title'' \<and> \<not> isStringProperty v ''plain_text'' \<and>
      \<not> isStringProperty v ''preview_text'' \<and> \<not> isTruthyProperty v ''content_state'' \<and>
      \<not> hasBigInt v"
    then have "\<not> isl (serializeJSONProperty [] v)"
      by (simp add: serialize_throws)
    then obtain t where t: "serializeJSONProperty [] v = Inr t"
      by (cases "serializeJSONProperty [] v") auto
    with h mismatch_result[of v asArticle options] show "\<exists>t. serializeJSONProperty [] v = Inr t \<and>
           formatArticleMarkdown asArticle v options =
             Inr \<lparr>markdown = ''```json'' @ [CHR 0x0A] @
                              (case t of None \<Rightarrow> ''undefined'' | Some s \<Rightarrow> s) @
                              [CHR 0x0A] @ ''```'',
                  coverUrl = None\<rparr>"
      by simp
  qed
  have b: "(\<exists>e. formatArticleMarkdown asArticle v options = Inl e) \<longleftrightarrow>
      \<not> isStringProperty v ''title'' \<and> \<not> isStringProperty v ''plain_text'' \<and>
      \<not> isStringProperty v ''preview_text'' \<and> \<not> isTruthyProperty v ''content_state'' \<and>
      hasBigInt v"
  proof (cases "isStringProperty v ''title'' \<or> isStringProperty v ''plain_text'' \<or>
           isStringProperty v ''preview_text'' \<or> isTruthyProperty v ''content_state''")
    case True
    from match_result[OF True, of asArticle options] True show ?thesis by auto
  next
    case False
    with mismatch_result[of v asArticle options] serialize_throws[of "[]" v]
    show ?thesis
      by (cases "serializeJSONProperty [] v") auto
  qed
  have c: "formatArticleMarkdown asArticle (JObj []) options =
     Inr \<lparr>markdown = ''```json'' @ [CHR 0x0A] @ ''{}'' @ [CHR 0x0A] @ ''```'', coverUrl = None\<rparr>"
    using mismatch_result[of "JObj []" asArticle options]
    by (simp add: isStringProperty_def isTruthyProperty_def property_def)
  have d: "serializeJSONProperty ind v = Inr None \<longleftrightarrow> v = JUndefined"
    by (cases v) (auto simp: Let_def split: sum.splits)
  have e: "(\<forall>c \<in> set s. 32 \<le> (of_char c :: nat) \<and> c \<noteq> CHR 0x22 \<and> c \<noteq> CHR 0x5C) \<longrightarrow>
      serializeJSONProperty ind (JStr s) = Inr (Some ([CHR 0x22] @ s @ [CHR 0x22]))"
    using quoteJson_plain[of s] by simp
  have f: "serializeJSONProperty ind JNull = Inr (Some ''null'')"
    "serializeJSONProperty ind (JBool True) = Inr (Some ''true'')"
    "serializeJSONProperty ind (JBool False) = Inr (Some ''false'')"
    "serializeJSONProperty ind (JNum (Number f (Some text))) = Inr (Some text)"
    "serializeJSONProperty ind (JNum (Number f None)) = Inr (Some ''null'')"
    by simp_all
  from a b c d e f isStringProperty_iff[of v name] isTruthyProperty_iff[of v name]
    serialize_array[of xs ind] serialize_object[of props ind]
  show ?thesis
    by (intro conjI impI) (assumption | blast)+
qed

theorem formatArticleMarkdown_shape_mismatch_witness:
  "nestedValue =
     JObj [(''title'', JNum (intNumber 5)),
           (''content_state'', JNum (intNumber 0)),
           (''plain_text'', JNull),
           (''list'',
            JArr [JUndefined, JBool True, JBool False,
                  JStr (''q'' @ [CHR 0x22, CHR 0x5C, CHR 0x0A, CHR 0x09, CHR 0x01] @ ''z''),
                  JNum (Number False (Some ''1e+21'')), JNum (Number True None),
                  JNum (Number False (Some ''-0.5'')), JArr [], JObj [], JArr [JNull]]),
           (''skipped'', JUndefined),
           (''inner'', JObj [(''k'', JStr ''v''), (''u'', JUndefined)]),
           (''onlyUndefined'', JObj [(''u'', JUndefined)])] \<and>
   formatArticleMarkdown (\<lambda>_. emptyArticle) nestedValue \<lparr>referencedTweets = None\<rparr> =
     Inr \<lparr>markdown =
        ''```json'' @ [CHR 0x0A] @
        concat (map (\<lambda>l. l @ [CHR 0x0A])
          [''{'',
           ''  '' @ [CHR 0x22] @ ''title'' @ [CHR 0x22] @ '': 5,'',
           ''  '' @ [CHR 0x22] @ ''content_state'' @ [CHR 0x22] @ '': 0,'',
           ''  '' @ [CHR 0x22] @ ''plain_text'' @ [CHR 0x22] @ '': null,'',
           ''  '' @ [CHR 0x22] @ ''list'' @ [CHR 0x22] @ '': ['',
           ''    null,'',
           ''    true,'',
           ''    false,'',
           ''    '' @ [CHR 0x22] @ ''q'' @ [CHR 0x5C, CHR 0x22, CHR 0x5C, CHR 0x5C, CHR 0x5C] @ ''n'' @ [CHR 0x5C] @ ''t'' @ [CHR 0x5C] @ ''u0001z'' @ [CHR 0x22] @ '','',
           ''    1e+21,'',
           ''    null,'',
           ''    -0.5,'',
           ''    [],'',
           ''    {},'',
           ''    ['',
           ''      null'',
           ''    ]'',
           ''  ],'',
           ''  '' @ [CHR 0x22] @ ''inner'' @ [CHR 0x22] @ '': {'',
           ''    '' @ [CHR 0x22] @ ''k'' @ [CHR 0x22] @ '': '' @ [CHR 0x22] @ ''v'' @ [CHR 0x22],
           ''  },'',
           ''  '' @ [CHR 0x22] @ ''onlyUndefined'' @ [CHR 0x22] @ '': {}'',
           ''}'']) @
        ''```'',
          coverUrl = None\<rparr> \<and>
   formatArticleMarkdown (\<lambda>_. emptyArticle) JUndefined \<lparr>referencedTweets = None\<rparr> =
     Inr \<lparr>markdown = ''```json'' @ [CHR 0x0A] @ ''undefined'' @ [CHR 0x0A] @ ''```'',
          coverUrl = None\<rparr> \<and>
   formatArticleMarkdown (\<lambda>_. emptyArticle) (JArr [JStr ''title'']) \<lparr>referencedTweets = None\<rparr> =
     Inr \<lparr>markdown = ''```json'' @ [CHR 0x0A] @ ''['' @ [CHR 0x0A] @ ''  '' @ [CHR 0x22] @
                      ''title'' @ [CHR 0x22, CHR 0x0A] @ '']'' @ [CHR 0x0A] @ ''```'',
          coverUrl = None\<rparr> \<and>
   formatArticleMarkdown (\<lambda>_. emptyArticle) (JObj []) \<lparr>referencedTweets = None\<rparr> =
     Inr \<lparr>markdown = ''```json'' @ [CHR 0x0A] @ ''{}'' @ [CHR 0x0A] @ ''```'', coverUrl = None\<rparr>"
proof -
  note t = formatArticleMarkdown_shape_mismatch[where asArticle = "\<lambda>_. emptyArticle" and
      options = "\<lparr>referencedTweets = None\<rparr>"]
  have h1: "\<not> isStringProperty nestedValue ''title'' \<and>
      \<not> isStringProperty nestedValue ''plain_text'' \<and>
      \<not> isStringProperty nestedValue ''preview_text'' \<and>
      \<not> isTruthyProperty nestedValue ''content_state'' \<and> \<not> hasBigInt nestedValue"
    by (simp add: nestedValue_def isStringProperty_def isTruthyProperty_def property_def
          truthyJson_def intNumber_def)
  have s1: "serializeJSONProperty [] nestedValue = Inr (Some (
        concat (map (\<lambda>l. l @ [CHR 0x0A])
          [''{'',
           ''  '' @ [CHR 0x22] @ ''title'' @ [CHR 0x22] @ '': 5,'',
           ''  '' @ [CHR 0x22] @ ''content_state'' @ [CHR 0x22] @ '': 0,'',
           ''  '' @ [CHR 0x22] @ ''plain_text'' @ [CHR 0x22] @ '': null,'',
           ''  '' @ [CHR 0x22] @ ''list'' @ [CHR 0x22] @ '': ['',
           ''    null,'',
           ''    true,'',
           ''    false,'',
           ''    '' @ [CHR 0x22] @ ''q'' @ [CHR 0x5C, CHR 0x22, CHR 0x5C, CHR 0x5C, CHR 0x5C] @ ''n'' @ [CHR 0x5C] @ ''t'' @ [CHR 0x5C] @ ''u0001z'' @ [CHR 0x22] @ '','',
           ''    1e+21,'',
           ''    null,'',
           ''    -0.5,'',
           ''    [],'',
           ''    {},'',
           ''    ['',
           ''      null'',
           ''    ]'',
           ''  ],'',
           ''  '' @ [CHR 0x22] @ ''inner'' @ [CHR 0x22] @ '': {'',
           ''    '' @ [CHR 0x22] @ ''k'' @ [CHR 0x22] @ '': '' @ [CHR 0x22] @ ''v'' @ [CHR 0x22],
           ''  },'',
           ''  '' @ [CHR 0x22] @ ''onlyUndefined'' @ [CHR 0x22] @ '': {}'']) @ ''}''))"
    by code_simp
  from t[of nestedValue, THEN conjunct1] h1 s1
  have 1: "formatArticleMarkdown (\<lambda>_. emptyArticle) nestedValue \<lparr>referencedTweets = None\<rparr> =
     Inr \<lparr>markdown =
        ''```json'' @ [CHR 0x0A] @
        concat (map (\<lambda>l. l @ [CHR 0x0A])
          [''{'',
           ''  '' @ [CHR 0x22] @ ''title'' @ [CHR 0x22] @ '': 5,'',
           ''  '' @ [CHR 0x22] @ ''content_state'' @ [CHR 0x22] @ '': 0,'',
           ''  '' @ [CHR 0x22] @ ''plain_text'' @ [CHR 0x22] @ '': null,'',
           ''  '' @ [CHR 0x22] @ ''list'' @ [CHR 0x22] @ '': ['',
           ''    null,'',
           ''    true,'',
           ''    false,'',
           ''    '' @ [CHR 0x22] @ ''q'' @ [CHR 0x5C, CHR 0x22, CHR 0x5C, CHR 0x5C, CHR 0x5C] @ ''n'' @ [CHR 0x5C] @ ''t'' @ [CHR 0x5C] @ ''u0001z'' @ [CHR 0x22] @ '','',
           ''    1e+21,'',
           ''    null,'',
           ''    -0.5,'',
           ''    [],'',
           ''    {},'',
           ''    ['',
           ''      null'',
           ''    ]'',
           ''  ],'',
           ''  '' @ [CHR 0x22] @ ''inner'' @ [CHR 0x22] @ '': {'',
           ''    '' @ [CHR 0x22] @ ''k'' @ [CHR 0x22] @ '': '' @ [CHR 0x22] @ ''v'' @ [CHR 0x22],
           ''  },'',
           ''  '' @ [CHR 0x22] @ ''onlyUndefined'' @ [CHR 0x22] @ '': {}'',
           ''}'']) @
        ''```'',
          coverUrl = None\<rparr>"
    by simp
  have h2: "\<not> isStringProperty JUndefined ''title'' \<and>
      \<not> isStringProperty JUndefined ''plain_text'' \<and>
      \<not> isStringProperty JUndefined ''preview_text'' \<and>
      \<not> isTruthyProperty JUndefined ''content_state'' \<and> \<not> hasBigInt JUndefined"
    by (simp add: isStringProperty_def isTruthyProperty_def property_def)
  from t[of JUndefined, THEN conjunct1] h2
  have 2: "formatArticleMarkdown (\<lambda>_. emptyArticle) JUndefined \<lparr>referencedTweets = None\<rparr> =
     Inr \<lparr>markdown = ''```json'' @ [CHR 0x0A] @ ''undefined'' @ [CHR 0x0A] @ ''```'',
          coverUrl = None\<rparr>"
    by simp
  have h3: "\<not> isStringProperty (JArr [JStr ''title'']) ''title'' \<and>
      \<not> isStringProperty (JArr [JStr ''title'']) ''plain_text'' \<and>
      \<not> isStringProperty (JArr [JStr ''title'']) ''preview_text'' \<and>
      \<not> isTruthyProperty (JArr [JStr ''title'']) ''content_state'' \<and>
      \<not> hasBigInt (JArr [JStr ''title''])"
    by (simp add: isStringProperty_def isTruthyProperty_def property_def)
  have s3: "serializeJSONProperty [] (JArr [JStr ''title'']) =
      Inr (Some (''['' @ [CHR 0x0A] @ ''  '' @ [CHR 0x22] @ ''title'' @ [CHR 0x22, CHR 0x0A] @ '']''))"
    by code_simp
  from t[of "JArr [JStr ''title'']", THEN conjunct1] h3 s3
  have 3: "formatArticleMarkdown (\<lambda>_. emptyArticle) (JArr [JStr ''title''])
      \<lparr>referencedTweets = None\<rparr> =
     Inr \<lparr>markdown = ''```json'' @ [CHR 0x0A] @ ''['' @ [CHR 0x0A] @ ''  '' @ [CHR 0x22] @
                      ''title'' @ [CHR 0x22, CHR 0x0A] @ '']'' @ [CHR 0x0A] @ ''```'',
          coverUrl = None\<rparr>"
    by simp
  from t[THEN conjunct2, THEN conjunct2, THEN conjunct1]
  have 4: "formatArticleMarkdown (\<lambda>_. emptyArticle) (JObj []) \<lparr>referencedTweets = None\<rparr> =
     Inr \<lparr>markdown = ''```json'' @ [CHR 0x0A] @ ''{}'' @ [CHR 0x0A] @ ''```'', coverUrl = None\<rparr>" .
  from 1 2 3 4 show ?thesis
    by (simp add: nestedValue_def)
qed

end
